theory Spec2Isabelle
  imports
    Complex_Main
    "HOL-Library.Char_ord"
    "HOL-Library.List_Lexorder"
    "HOL-Library.Option_ord"
    "HOL-Library.Product_Lexorder"
begin

section \<open>Data model: the rows of the backing store\<close>

text \<open>
  The SQLite store of \<^verbatim>\<open>database copy.py\<close> (embedded in
  \<^verbatim>\<open>src/app_working_backup_20251202.py\<close>) has the tables \<^verbatim>\<open>yakit\<close> (fuel purchases),
  \<^verbatim>\<open>agirlik\<close> (weighbridge tickets) and \<^verbatim>\<open>araclar\<close> (vehicles). A table is the list
  of its rows. A column that may hold SQL NULL is an \<open>option\<close>. Dates are stored as text
  and compared as text (lexicographically), numbers are exact rationals.
\<close>

record yakit =
  y_id :: nat
  y_plaka :: "string option"
  islem_tarihi :: "string option"
  yakit_miktari :: "rat option"
  birim_fiyat :: "rat option"
  satir_tutari :: "rat option"
  km_bilgisi :: "rat option"

record agirlik =
  ag_plaka :: "string option"
  tarih :: "string option"
  net_agirlik :: "rat option"
  birim :: "string option"
  ana_malzeme :: "string option"

record arac =
  a_plaka :: string
  sahip :: string
  arac_tipi :: string
  aktif :: int

text \<open>
  The code probes \<^verbatim>\<open>sqlite_master\<close> for the table \<^verbatim>\<open>araclar\<close>, which may not
  exist: \<open>araclar_t\<close> is \<open>None\<close> then. The tables \<^verbatim>\<open>yakit\<close> and \<^verbatim>\<open>agirlik\<close>
  are taken to exist and the connection to succeed.
\<close>

record veritabani =
  yakit_t :: "yakit list"
  agirlik_t :: "agirlik list"
  araclar_t :: "arac list option"

datatype hata = Hata string

section \<open>Distance reconstruction: \<^verbatim>\<open>hesapla_gercek_km\<close>\<close>

text \<open>
  The query of \<^verbatim>\<open>hesapla_gercek_km\<close>:
  \<^verbatim>\<open>SELECT km_bilgisi FROM yakit WHERE plaka = ? AND km_bilgisi IS NOT NULL
    AND km_bilgisi > 0 ORDER BY islem_tarihi ASC, id ASC\<close>.
  A NULL plate equals nothing; NULL dates sort first, as \<open>None\<close> does.
\<close>

definition km_pozitif :: "yakit \<Rightarrow> bool" where
  "km_pozitif r = (case km_bilgisi r of None \<Rightarrow> False | Some k \<Rightarrow> k > 0)"

definition km_kayitlari :: "yakit list \<Rightarrow> string \<Rightarrow> yakit list" where
  "km_kayitlari tablo plaka =
     sort_key (\<lambda>r. (islem_tarihi r, y_id r))
       (filter (\<lambda>r. y_plaka r = Some plaka \<and> km_pozitif r) tablo)"

definition km_sorgusu :: "yakit list \<Rightarrow> string \<Rightarrow> rat list" where
  "km_sorgusu tablo plaka = List.map_filter km_bilgisi (km_kayitlari tablo plaka)"

text \<open>
  The loop over the fetched rows, with its two variables \<^verbatim>\<open>toplam_km\<close> and
  \<^verbatim>\<open>onceki_km\<close> (\<open>None\<close> before the first row).
\<close>

fun km_dongusu :: "rat list \<Rightarrow> rat \<Rightarrow> rat option \<Rightarrow> rat" where
  "km_dongusu [] toplam_km onceki_km = toplam_km"
| "km_dongusu (km # rows) toplam_km None = km_dongusu rows toplam_km (Some km)"
| "km_dongusu (km # rows) toplam_km (Some onceki) =
     (let fark = km - onceki
      in km_dongusu rows (if fark > 0 then toplam_km + fark else toplam_km) (Some km))"

definition ardisik_farklar_toplami :: "rat list \<Rightarrow> rat" where
  "ardisik_farklar_toplami rows =
     (if length rows < 2 then 0 else km_dongusu rows 0 None)"

definition hesapla_gercek_km :: "yakit list \<Rightarrow> string \<Rightarrow> rat" where
  "hesapla_gercek_km tablo plaka = ardisik_farklar_toplami (km_sorgusu tablo plaka)"

text \<open>
  The specification's wording of the same quantity: the deltas of the consecutive pairs
  \<open>(prev, cur)\<close> of the sequence, of which the positive ones are kept.
\<close>

definition consecutive_deltas :: "rat list \<Rightarrow> rat list" where
  "consecutive_deltas ks = map2 (\<lambda>prev cur. cur - prev) ks (tl ks)"

definition positive_delta_sum :: "rat list \<Rightarrow> rat" where
  "positive_delta_sum ks = sum_list (filter (\<lambda>d. d > 0) (consecutive_deltas ks))"

text \<open>
  A fuel table: four records of one plate with the readings 100, 250, 50, 300, inserted
  out of chronological order, a fifth one without a reading, and one record of a
  second plate.
\<close>

definition ornek_yakit :: "yakit list" where
  "ornek_yakit =
     [\<lparr>y_id = 1, y_plaka = Some ''46AJH283'', islem_tarihi = Some ''2024-01-03'',
        yakit_miktari = Some 40, birim_fiyat = Some 2, satir_tutari = Some 80,
        km_bilgisi = Some 50\<rparr>,
      \<lparr>y_id = 2, y_plaka = Some ''46AJH283'', islem_tarihi = Some ''2024-01-01'',
        yakit_miktari = Some 40, birim_fiyat = Some 2, satir_tutari = Some 80,
        km_bilgisi = Some 100\<rparr>,
      \<lparr>y_id = 3, y_plaka = Some ''46AJH283'', islem_tarihi = Some ''2024-01-03'',
        yakit_miktari = Some 40, birim_fiyat = Some 2, satir_tutari = Some 80,
        km_bilgisi = Some 300\<rparr>,
      \<lparr>y_id = 4, y_plaka = Some ''46AJH283'', islem_tarihi = Some ''2024-01-02'',
        yakit_miktari = Some 40, birim_fiyat = Some 2, satir_tutari = Some 80,
        km_bilgisi = Some 250\<rparr>,
      \<lparr>y_id = 5, y_plaka = Some ''34ABC01'', islem_tarihi = Some ''2024-01-02'',
        yakit_miktari = Some 40, birim_fiyat = Some 2, satir_tutari = Some 80,
        km_bilgisi = Some 7000\<rparr>,
      \<lparr>y_id = 6, y_plaka = Some ''46AJH283'', islem_tarihi = Some ''2024-01-02'',
        yakit_miktari = Some 40, birim_fiyat = Some 2, satir_tutari = Some 80,
        km_bilgisi = None\<rparr>]"

section \<open>SQL and Python helpers\<close>

text \<open>\<^verbatim>\<open>SUM\<close>, \<^verbatim>\<open>AVG\<close> and \<^verbatim>\<open>MAX\<close> skip NULL and are NULL over no value.\<close>

definition sql_sum :: "rat option list \<Rightarrow> rat option" where
  "sql_sum vs = (let xs = List.map_filter id vs
                 in if xs = [] then None else Some (sum_list xs))"

definition sql_avg :: "rat option list \<Rightarrow> rat option" where
  "sql_avg vs = (let xs = List.map_filter id vs
                 in if xs = [] then None else Some (sum_list xs / of_nat (length xs)))"

definition sql_max :: "string option list \<Rightarrow> string option" where
  "sql_max vs = (case List.map_filter id vs of [] \<Rightarrow> None | x # xs \<Rightarrow> Some (fold max xs x))"

text \<open>\<^verbatim>\<open>float(v or 0)\<close>: NULL (and 0) give 0.\<close>

definition veya_sifir :: "rat option \<Rightarrow> rat" where
  "veya_sifir v = (case v of None \<Rightarrow> 0 | Some x \<Rightarrow> x)"

text \<open>Truth value of an optional string in Python: \<^verbatim>\<open>None\<close> and \<^verbatim>\<open>''\<close> are false.\<close>

definition dolu :: "string option \<Rightarrow> bool" where
  "dolu s = (case s of None \<Rightarrow> False | Some t \<Rightarrow> t \<noteq> [])"

text \<open>\<^verbatim>\<open>col BETWEEN ? AND ?\<close> on a text column; NULL is in no range.\<close>

definition arasinda :: "string option \<Rightarrow> string \<Rightarrow> string \<Rightarrow> bool" where
  "arasinda t b e = (case t of None \<Rightarrow> False | Some d \<Rightarrow> b \<le> d \<and> d \<le> e)"

text \<open>
  The date filter of \<^verbatim>\<open>get_muhasebe_data\<close> and \<^verbatim>\<open>get_arac_performans_analizi\<close>:
  \<^verbatim>\<open>if baslangic_tarihi and bitis_tarihi: ... BETWEEN ? AND ? else: ""\<close>.
\<close>

definition tarih_kosulu :: "string option \<Rightarrow> string option \<Rightarrow> string option \<Rightarrow> bool" where
  "tarih_kosulu baslangic_tarihi bitis_tarihi t =
     (case (baslangic_tarihi, bitis_tarihi) of
        (Some b, Some e) \<Rightarrow> if b \<noteq> [] \<and> e \<noteq> [] then arasinda t b e else True
      | _ \<Rightarrow> True)"

text \<open>\<^verbatim>\<open>birim NOT IN ('Adet', 'adet', 'ADET')\<close>; a NULL unit fails the test.\<close>

definition urun_birimi :: "string option \<Rightarrow> bool" where
  "urun_birimi b = (case b of None \<Rightarrow> False
                    | Some u \<Rightarrow> u \<noteq> ''Adet'' \<and> u \<noteq> ''adet'' \<and> u \<noteq> ''ADET'')"

text \<open>
  Python's builtin \<^verbatim>\<open>round(x, n)\<close> rounds the binary double that \<^verbatim>\<open>x\<close> holds, so
  its result is not a function of the exact number computed here. The functions that
  call it take it as a parameter \<open>yuvarla\<close> of this type; nothing is assumed of it
  unless a statement says so.
\<close>

type_synonym yuvarlama = "rat \<Rightarrow> nat \<Rightarrow> rat"

text \<open>\<^verbatim>\<open>a INNER JOIN araclar ON a.plaka = araclar.plaka\<close>: one row per matching pair.\<close>

definition ic_birlesim :: "('r \<Rightarrow> string option) \<Rightarrow> 'r list \<Rightarrow> arac list \<Rightarrow> ('r \<times> arac) list" where
  "ic_birlesim plaka_of rows araclar =
     concat (map (\<lambda>r. map (\<lambda>a. (r, a)) (filter (\<lambda>a. plaka_of r = Some (a_plaka a)) araclar)) rows)"

text \<open>
  \<^verbatim>\<open>GROUP BY\<close>: one group per key value. SQLite groups by sorting on the key, so the
  groups come out in ascending order of the key.
\<close>

definition grupla :: "('r \<Rightarrow> string) \<Rightarrow> 'r list \<Rightarrow> (string \<times> 'r list) list" where
  "grupla key rows =
     map (\<lambda>k. (k, filter (\<lambda>r. key r = k) rows)) (sort (remdups (map key rows)))"

section \<open>Raw fetches: \<^verbatim>\<open>get_yakit_data\<close>, \<^verbatim>\<open>get_agirlik_data\<close>\<close>

text \<open>
  \<^verbatim>\<open>SELECT y.* FROM yakit y LEFT JOIN araclar a ON y.plaka = a.plaka
    WHERE a.plaka IS NULL OR a.aktif = 1\<close> when the table \<^verbatim>\<open>araclar\<close> exists,
  \<^verbatim>\<open>SELECT * FROM yakit\<close> otherwise. A row without a match is kept once (its
  \<^verbatim>\<open>a.plaka\<close> is NULL), a row with matches once per active match.
\<close>

definition sol_birlesim_aktif :: "('r \<Rightarrow> string option) \<Rightarrow> arac list \<Rightarrow> 'r list \<Rightarrow> 'r list" where
  "sol_birlesim_aktif plaka_of araclar rows =
     concat (map (\<lambda>r. case filter (\<lambda>a. plaka_of r = Some (a_plaka a)) araclar of
                         [] \<Rightarrow> [r]
                       | es \<Rightarrow> map (\<lambda>a. r) (filter (\<lambda>a. aktif a = 1) es)) rows)"

definition get_yakit_data :: "veritabani \<Rightarrow> yakit list" where
  "get_yakit_data db =
     (case araclar_t db of
        Some araclar \<Rightarrow> sol_birlesim_aktif y_plaka araclar (yakit_t db)
      | None \<Rightarrow> yakit_t db)"

definition get_agirlik_data :: "veritabani \<Rightarrow> agirlik list" where
  "get_agirlik_data db =
     (case araclar_t db of
        Some araclar \<Rightarrow> sol_birlesim_aktif ag_plaka araclar (agirlik_t db)
      | None \<Rightarrow> agirlik_t db)"

section \<open>Accounting: \<^verbatim>\<open>get_muhasebe_data\<close>\<close>

text \<open>\<^verbatim>\<open>a.aktif = 1 AND a.arac_tipi = 'KARGO ARACI'\<close>.\<close>

definition kargo_aktif :: "arac \<Rightarrow> bool" where
  "kargo_aktif a = (aktif a = 1 \<and> arac_tipi a = ''KARGO ARACI'')"

text \<open>\<^verbatim>\<open>if plaka: ... AND y.plaka = ?\<close>.\<close>

definition plaka_kosulu :: "string option \<Rightarrow> string option \<Rightarrow> bool" where
  "plaka_kosulu plaka p = (if dolu plaka then p = plaka else True)"

text \<open>
  \<^verbatim>\<open>SELECT y.plaka, SUM(y.satir_tutari) as toplam_gider FROM yakit y
    INNER JOIN araclar a ON y.plaka = a.plaka ... GROUP BY y.plaka\<close>.
  In a joined row \<^verbatim>\<open>y.plaka\<close> is \<^verbatim>\<open>a.plaka\<close>, which is the group key.
\<close>

definition muhasebe_yakit_rows ::
  "yakit list \<Rightarrow> arac list \<Rightarrow> string option \<Rightarrow> string option \<Rightarrow> string option
     \<Rightarrow> (string \<times> rat option) list" where
  "muhasebe_yakit_rows yakitlar araclar baslangic_tarihi bitis_tarihi plaka =
     map (\<lambda>(k, g). (k, sql_sum (map (\<lambda>(y, a). satir_tutari y) g)))
       (grupla (\<lambda>(y, a). a_plaka a)
          (filter (\<lambda>(y, a). tarih_kosulu baslangic_tarihi bitis_tarihi (islem_tarihi y)
                             \<and> plaka_kosulu plaka (y_plaka y) \<and> kargo_aktif a)
             (ic_birlesim y_plaka yakitlar araclar)))"

text \<open>
  \<^verbatim>\<open>SELECT ag.plaka, SUM(ag.net_agirlik * 0.5) as toplam_gelir,
    MAX(ag.ana_malzeme) as ana_malzeme FROM agirlik ag INNER JOIN araclar a ...
    AND ag.birim NOT IN ('Adet', 'adet', 'ADET') ... GROUP BY ag.plaka\<close>.
\<close>

definition muhasebe_agirlik_rows ::
  "agirlik list \<Rightarrow> arac list \<Rightarrow> string option \<Rightarrow> string option \<Rightarrow> string option
     \<Rightarrow> (string \<times> rat option \<times> string option) list" where
  "muhasebe_agirlik_rows agirliklar araclar baslangic_tarihi bitis_tarihi plaka =
     map (\<lambda>(k, g). (k, sql_sum (map (\<lambda>(ag, a). map_option (\<lambda>w. w * (1 / 2)) (net_agirlik ag)) g),
                        sql_max (map (\<lambda>(ag, a). ana_malzeme ag) g)))
       (grupla (\<lambda>(ag, a). a_plaka a)
          (filter (\<lambda>(ag, a). tarih_kosulu baslangic_tarihi bitis_tarihi (tarih ag)
                              \<and> plaka_kosulu plaka (ag_plaka ag)
                              \<and> urun_birimi (birim ag) \<and> kargo_aktif a)
             (ic_birlesim ag_plaka agirliklar araclar)))"

text \<open>
  The dictionary \<^verbatim>\<open>plaka_veriler\<close>, in insertion order. \<open>guncelle p f d\<close> is
  \<^verbatim>\<open>if p not in d: d[p] = {'gelir': 0, 'gider': 0, 'ana_malzeme': 'Bilinmiyor'}\<close>
  followed by the update \<open>f\<close> of \<^verbatim>\<open>d[p]\<close>.
\<close>

record plaka_veri =
  v_gelir :: rat
  v_gider :: rat
  v_ana_malzeme :: string

definition varsayilan :: plaka_veri where
  "varsayilan = \<lparr>v_gelir = 0, v_gider = 0, v_ana_malzeme = ''Bilinmiyor''\<rparr>"

fun guncelle :: "string \<Rightarrow> (plaka_veri \<Rightarrow> plaka_veri) \<Rightarrow> (string \<times> plaka_veri) list
                 \<Rightarrow> (string \<times> plaka_veri) list" where
  "guncelle p f [] = [(p, f varsayilan)]"
| "guncelle p f ((q, v) # d) = (if p = q then (q, f v) # d else (q, v) # guncelle p f d)"

definition yakit_isle :: "string \<times> rat option \<Rightarrow> (string \<times> plaka_veri) list
                          \<Rightarrow> (string \<times> plaka_veri) list" where
  "yakit_isle row d = guncelle (fst row) (\<lambda>v. v\<lparr>v_gider := veya_sifir (snd row)\<rparr>) d"

text \<open>\<^verbatim>\<open>row['ana_malzeme'] or 'Bilinmiyor'\<close>.\<close>

definition veya_bilinmiyor :: "string option \<Rightarrow> string" where
  "veya_bilinmiyor m = (if dolu m then (case m of Some t \<Rightarrow> t | None \<Rightarrow> ''Bilinmiyor'')
                        else ''Bilinmiyor'')"

definition agirlik_isle :: "string \<times> rat option \<times> string option \<Rightarrow> (string \<times> plaka_veri) list
                            \<Rightarrow> (string \<times> plaka_veri) list" where
  "agirlik_isle row d =
     guncelle (fst row)
       (\<lambda>v. v\<lparr>v_gelir := veya_sifir (fst (snd row)),
               v_ana_malzeme := veya_bilinmiyor (snd (snd row))\<rparr>) d"

record plaka_satiri =
  pb_plaka :: string
  pb_gelir :: rat
  pb_gider :: rat
  pb_net_kar :: rat
  pb_kar_marji :: rat
  pb_ana_malzeme :: string

definition plaka_satiri_yap :: "string \<times> plaka_veri \<Rightarrow> plaka_satiri" where
  "plaka_satiri_yap pv =
     (let p = fst pv; v = snd pv;
          net = v_gelir v - v_gider v;
          marji = (if v_gelir v > 0 then net / v_gelir v * 100 else 0)
      in \<lparr>pb_plaka = p, pb_gelir = v_gelir v, pb_gider = v_gider v, pb_net_kar = net,
           pb_kar_marji = marji, pb_ana_malzeme = v_ana_malzeme v\<rparr>)"

text \<open>
  \<^verbatim>\<open>xs.sort(key=..., reverse=True)\<close>: a stable sort, descending; entries with equal
  keys keep their order.
\<close>

definition sort_reverse :: "('a \<Rightarrow> rat) \<Rightarrow> 'a list \<Rightarrow> 'a list" where
  "sort_reverse key xs = rev (sort_key key (rev xs))"

record muhasebe =
  toplam_gelir :: rat
  toplam_gider :: rat
  net_kar :: rat
  kar_marji :: rat
  plaka_bazli :: "plaka_satiri list"

definition muhasebe_hesapla :: "(string \<times> rat option) list
    \<Rightarrow> (string \<times> rat option \<times> string option) list \<Rightarrow> muhasebe" where
  "muhasebe_hesapla yakit_rows agirlik_rows =
     (let plaka_veriler = fold agirlik_isle agirlik_rows (fold yakit_isle yakit_rows []);
          gelir = sum_list (map (\<lambda>pv. v_gelir (snd pv)) plaka_veriler);
          gider = sum_list (map (\<lambda>pv. v_gider (snd pv)) plaka_veriler);
          net = gelir - gider;
          marji = (if gelir > 0 then net / gelir * 100 else 0)
      in \<lparr>toplam_gelir = gelir, toplam_gider = gider, net_kar = net, kar_marji = marji,
           plaka_bazli = sort_reverse pb_net_kar (map plaka_satiri_yap plaka_veriler)\<rparr>)"

text \<open>
  Both queries join \<^verbatim>\<open>araclar\<close>: without the table they raise, and the
  \<^verbatim>\<open>except\<close> branch returns \<^verbatim>\<open>{'status': 'error', 'message': str(e)}\<close>.
\<close>

definition get_muhasebe_data ::
  "veritabani \<Rightarrow> string option \<Rightarrow> string option \<Rightarrow> string option \<Rightarrow> hata + muhasebe" where
  "get_muhasebe_data db baslangic_tarihi bitis_tarihi plaka =
     (case araclar_t db of
        None \<Rightarrow> Inl (Hata ''no such table: araclar'')
      | Some araclar \<Rightarrow>
          Inr (muhasebe_hesapla
                 (muhasebe_yakit_rows (yakit_t db) araclar baslangic_tarihi bitis_tarihi plaka)
                 (muhasebe_agirlik_rows (agirlik_t db) araclar baslangic_tarihi bitis_tarihi plaka)))"

section \<open>Vehicle performance: \<^verbatim>\<open>get_arac_performans_analizi\<close>\<close>

text \<open>
  \<^verbatim>\<open>FROM yakit WHERE plaka = ? {tarih_filtre_yakit}
    AND yakit_miktari IS NOT NULL AND yakit_miktari > 0\<close>.
\<close>

definition performans_yakit_rows ::
  "yakit list \<Rightarrow> string \<Rightarrow> string option \<Rightarrow> string option \<Rightarrow> yakit list" where
  "performans_yakit_rows yakitlar plaka baslangic_tarihi bitis_tarihi =
     filter (\<lambda>y. y_plaka y = Some plaka
                  \<and> tarih_kosulu baslangic_tarihi bitis_tarihi (islem_tarihi y)
                  \<and> (case yakit_miktari y of None \<Rightarrow> False | Some m \<Rightarrow> m > 0)) yakitlar"

text \<open>
  \<^verbatim>\<open>FROM agirlik WHERE plaka = ? {tarih_filtre_agirlik}
    AND net_agirlik IS NOT NULL AND net_agirlik > 0
    AND birim NOT IN ('Adet', 'adet', 'ADET')\<close>.
\<close>

definition performans_agirlik_rows ::
  "agirlik list \<Rightarrow> string \<Rightarrow> string option \<Rightarrow> string option \<Rightarrow> agirlik list" where
  "performans_agirlik_rows agirliklar plaka baslangic_tarihi bitis_tarihi =
     filter (\<lambda>g. ag_plaka g = Some plaka
                  \<and> tarih_kosulu baslangic_tarihi bitis_tarihi (tarih g)
                  \<and> (case net_agirlik g of None \<Rightarrow> False | Some w \<Rightarrow> w > 0)
                  \<and> urun_birimi (birim g)) agirliklar"

text \<open>The local variables of the block \<^verbatim>\<open># Hesaplamalar\<close>, before any rounding.\<close>

record hesaplamalar =
  h_toplam_yakit :: rat
  h_toplam_km :: rat
  h_sefer_sayisi :: nat
  h_toplam_maliyet :: rat
  h_ort_yakit_sefer :: rat
  h_ort_birim_fiyat :: rat
  h_toplam_tonaj :: rat
  h_yuklenme_sayisi :: nat
  h_ort_tonaj_yuklenme :: rat
  h_yakit_km_orani :: rat
  h_km_basina_maliyet :: rat
  h_toplam_tonaj_ton :: rat
  h_ton_basina_yakit :: rat
  h_verimlilik_skoru :: rat

definition performans_hesaplamalar ::
  "veritabani \<Rightarrow> string \<Rightarrow> string option \<Rightarrow> string option \<Rightarrow> hesaplamalar" where
  "performans_hesaplamalar db plaka baslangic_tarihi bitis_tarihi =
     (let yakit_rows = performans_yakit_rows (yakit_t db) plaka baslangic_tarihi bitis_tarihi;
          agirlik_rows = performans_agirlik_rows (agirlik_t db) plaka baslangic_tarihi bitis_tarihi;
          toplam_yakit = veya_sifir (sql_sum (map yakit_miktari yakit_rows));
          toplam_km = veya_sifir (sql_sum (map km_bilgisi yakit_rows));
          sefer_sayisi = length yakit_rows;
          toplam_maliyet = veya_sifir (sql_sum (map satir_tutari yakit_rows));
          ort_yakit_sefer = veya_sifir (sql_avg (map yakit_miktari yakit_rows));
          ort_birim_fiyat = veya_sifir (sql_avg (map birim_fiyat yakit_rows));
          toplam_tonaj = veya_sifir (sql_sum (map net_agirlik agirlik_rows));
          yuklenme_sayisi = length agirlik_rows;
          ort_tonaj_yuklenme = veya_sifir (sql_avg (map net_agirlik agirlik_rows));
          yakit_km_orani = (if toplam_km > 0 then toplam_yakit / toplam_km else 0);
          km_basina_maliyet = (if toplam_km > 0 then toplam_maliyet / toplam_km else 0);
          toplam_tonaj_ton = toplam_tonaj / 1000;
          ton_basina_yakit = (if toplam_yakit > 0 then toplam_tonaj_ton / toplam_yakit else 0);
          verimlilik_skoru = (if yakit_km_orani > 0 then yakit_km_orani * 100 else 0)
      in \<lparr>h_toplam_yakit = toplam_yakit, h_toplam_km = toplam_km,
           h_sefer_sayisi = sefer_sayisi, h_toplam_maliyet = toplam_maliyet,
           h_ort_yakit_sefer = ort_yakit_sefer, h_ort_birim_fiyat = ort_birim_fiyat,
           h_toplam_tonaj = toplam_tonaj, h_yuklenme_sayisi = yuklenme_sayisi,
           h_ort_tonaj_yuklenme = ort_tonaj_yuklenme, h_yakit_km_orani = yakit_km_orani,
           h_km_basina_maliyet = km_basina_maliyet, h_toplam_tonaj_ton = toplam_tonaj_ton,
           h_ton_basina_yakit = ton_basina_yakit, h_verimlilik_skoru = verimlilik_skoru\<rparr>)"

text \<open>
  The returned dictionary, with its three nested dictionaries. The echoed dates are
  \<^verbatim>\<open>baslangic_tarihi or <label>\<close> and \<^verbatim>\<open>bitis_tarihi or <label>\<close>: the given
  text, or one of the two fixed labels.
\<close>

datatype tarih_etiketi = Verilen string | Baslangic | Bugun

record yakit_ozeti =
  toplam_yakit :: rat
  toplam_km :: rat
  sefer_sayisi :: nat
  ort_yakit_sefer :: rat
  ort_birim_fiyat :: rat
  toplam_maliyet :: rat

record tonaj_ozeti =
  toplam_tonaj :: rat
  yuklenme_sayisi :: nat
  ort_tonaj_yuklenme :: rat

record performans_ozeti =
  yakit_km_orani :: rat
  km_basina_maliyet :: rat
  ton_basina_yakit :: rat
  verimlilik_skoru :: rat

record performans_analizi =
  r_plaka :: string
  r_baslangic_tarihi :: tarih_etiketi
  r_bitis_tarihi :: tarih_etiketi
  r_yakit :: yakit_ozeti
  r_tonaj :: tonaj_ozeti
  r_performans :: performans_ozeti

definition get_arac_performans_analizi ::
  "yuvarlama \<Rightarrow> veritabani \<Rightarrow> string \<Rightarrow> string option \<Rightarrow> string option
     \<Rightarrow> performans_analizi" where
  "get_arac_performans_analizi yuvarla db plaka baslangic_tarihi bitis_tarihi =
     (let h = performans_hesaplamalar db plaka baslangic_tarihi bitis_tarihi
      in \<lparr>r_plaka = plaka,
           r_baslangic_tarihi =
             (case baslangic_tarihi of Some b \<Rightarrow> if b \<noteq> [] then Verilen b else Baslangic
              | None \<Rightarrow> Baslangic),
           r_bitis_tarihi =
             (case bitis_tarihi of Some e \<Rightarrow> if e \<noteq> [] then Verilen e else Bugun
              | None \<Rightarrow> Bugun),
           r_yakit = \<lparr>toplam_yakit = yuvarla (h_toplam_yakit h) 2,
                       toplam_km = yuvarla (h_toplam_km h) 2,
                       sefer_sayisi = h_sefer_sayisi h,
                       ort_yakit_sefer = yuvarla (h_ort_yakit_sefer h) 2,
                       ort_birim_fiyat = yuvarla (h_ort_birim_fiyat h) 2,
                       toplam_maliyet = yuvarla (h_toplam_maliyet h) 2\<rparr>,
           r_tonaj = \<lparr>toplam_tonaj = yuvarla (h_toplam_tonaj h) 2,
                       yuklenme_sayisi = h_yuklenme_sayisi h,
                       ort_tonaj_yuklenme = yuvarla (h_ort_tonaj_yuklenme h) 2\<rparr>,
           r_performans = \<lparr>yakit_km_orani = yuvarla (h_yakit_km_orani h) 3,
                            km_basina_maliyet = yuvarla (h_km_basina_maliyet h) 2,
                            ton_basina_yakit = yuvarla (h_ton_basina_yakit h) 2,
                            verimlilik_skoru = yuvarla (h_verimlilik_skoru h) 2\<rparr>\<rparr>)"

section \<open>Comparison: \<^verbatim>\<open>api_performans_karsilastir\<close> (\<^verbatim>\<open>src/app.py\<close>)\<close>

text \<open>
  The handler builds \<^verbatim>\<open>filters = {'plaka': f'eq.{plaka}'}\<close>, then sets the key
  \<^verbatim>\<open>'islem_tarihi'\<close> to \<^verbatim>\<open>gte.{baslangic}\<close> if \<^verbatim>\<open>baslangic\<close> and, after that, to
  \<^verbatim>\<open>lte.{bitis}\<close> if \<^verbatim>\<open>bitis\<close>: the second assignment replaces the first.
\<close>

datatype tarih_filtresi = Gte string | Lte string

record filtreler =
  f_plaka :: string
  f_islem_tarihi :: "tarih_filtresi option"

definition filtre_kur :: "string \<Rightarrow> string option \<Rightarrow> string option \<Rightarrow> filtreler" where
  "filtre_kur plaka baslangic bitis =
     (let f0 = \<lparr>f_plaka = plaka, f_islem_tarihi = None\<rparr>;
          f1 = (case baslangic of Some b \<Rightarrow> if b \<noteq> [] then f0\<lparr>f_islem_tarihi := Some (Gte b)\<rparr> else f0
                | None \<Rightarrow> f0)
      in (case bitis of Some e \<Rightarrow> if e \<noteq> [] then f1\<lparr>f_islem_tarihi := Some (Lte e)\<rparr> else f1
          | None \<Rightarrow> f1))"

record sonuc =
  s_plaka :: string
  s_toplam_yakit :: rat
  s_toplam_maliyet :: rat
  s_gercek_km :: rat
  s_ortalama_tuketim :: rat

definition sonuc_satiri :: "yuvarlama \<Rightarrow> string \<Rightarrow> yakit list \<Rightarrow> rat \<Rightarrow> sonuc" where
  "sonuc_satiri yuvarla plaka yakit_data gercek_km =
     (let toplam_yakit = sum_list (map (\<lambda>row. veya_sifir (yakit_miktari row)) yakit_data);
          toplam_maliyet = sum_list (map (\<lambda>row. veya_sifir (satir_tutari row)) yakit_data);
          ort_tuketim = (if gercek_km > 0 then toplam_yakit / (gercek_km / 100) else 0)
      in \<lparr>s_plaka = plaka, s_toplam_yakit = yuvarla toplam_yakit 2,
           s_toplam_maliyet = yuvarla toplam_maliyet 2,
           s_gercek_km = yuvarla gercek_km 2,
           s_ortalama_tuketim = yuvarla ort_tuketim 2\<rparr>)"

text \<open>
  The two store functions the handler imports from \<^verbatim>\<open>database\<close> are parameters, as
  is \<^verbatim>\<open>round\<close>; each store function
  may fail, and a failure anywhere in the loop ends the request in the \<^verbatim>\<open>except\<close>
  branch, with the error and no rows.
\<close>

fun karsilastir_dongusu ::
  "yuvarlama \<Rightarrow> (filtreler \<Rightarrow> hata + yakit list)
     \<Rightarrow> (string \<Rightarrow> string option \<Rightarrow> string option \<Rightarrow> hata + rat)
     \<Rightarrow> string option \<Rightarrow> string option \<Rightarrow> string list \<Rightarrow> sonuc list \<Rightarrow> hata + sonuc list" where
  "karsilastir_dongusu yuvarla fetch gercek baslangic bitis [] sonuclar = Inr sonuclar"
| "karsilastir_dongusu yuvarla fetch gercek baslangic bitis (plaka # plakalar) sonuclar =
     (case fetch (filtre_kur plaka baslangic bitis) of
        Inl e \<Rightarrow> Inl e
      | Inr yakit_data \<Rightarrow>
          (case gercek plaka baslangic bitis of
             Inl e \<Rightarrow> Inl e
           | Inr gercek_km \<Rightarrow>
               karsilastir_dongusu yuvarla fetch gercek baslangic bitis plakalar
                 (sonuclar @ [sonuc_satiri yuvarla plaka yakit_data gercek_km])))"

definition api_performans_karsilastir ::
  "yuvarlama \<Rightarrow> (filtreler \<Rightarrow> hata + yakit list)
     \<Rightarrow> (string \<Rightarrow> string option \<Rightarrow> string option \<Rightarrow> hata + rat)
     \<Rightarrow> string list \<Rightarrow> string option \<Rightarrow> string option \<Rightarrow> hata + sonuc list" where
  "api_performans_karsilastir yuvarla fetch gercek plakalar baslangic bitis =
     karsilastir_dongusu yuvarla fetch gercek baslangic bitis plakalar []"

section \<open>The store functions of \<^verbatim>\<open>database.py\<close>\<close>

text \<open>
  Modelled from the spec: \<^verbatim>\<open>fetch_all_paginated\<close> of the module \<^verbatim>\<open>database\<close> that
  \<^verbatim>\<open>src/app.py\<close> imports, which is not among the sources. Section 6:
  \<^verbatim>\<open>query_records(entity_kind, filters, order?) -> sequence of records\<close>, the filters
  being equality and range predicates. Here for the entity \<^verbatim>\<open>yakit\<close>.
\<close>

definition fetch_all_paginated :: "yakit list \<Rightarrow> filtreler \<Rightarrow> yakit list" where
  "fetch_all_paginated tablo f =
     filter (\<lambda>r. y_plaka r = Some (f_plaka f)
                  \<and> (case f_islem_tarihi f of
                        None \<Rightarrow> True
                      | Some (Gte b) \<Rightarrow> (case islem_tarihi r of None \<Rightarrow> False | Some d \<Rightarrow> b \<le> d)
                      | Some (Lte e) \<Rightarrow> (case islem_tarihi r of None \<Rightarrow> False | Some d \<Rightarrow> d \<le> e)))
       tablo"

text \<open>
  Modelled from the spec: the three-argument \<^verbatim>\<open>hesapla_gercek_km(plaka, baslangic,
  bitis)\<close> of the module \<^verbatim>\<open>database\<close> that \<^verbatim>\<open>src/app.py\<close> imports and calls, which is
  not among the sources (the \<^verbatim>\<open>hesapla_gercek_km(plaka, conn=None)\<close> above has no date
  parameter). Section 4.1: \<^verbatim>\<open>true_distance(plate, start_date?, end_date?)\<close> fetches
  the records of the plate with a present, positive odometer reading, optionally
  restricted to \<^verbatim>\<open>[start_date, end_date]\<close> inclusive on transaction date, and then
  sorts and walks them as above.
\<close>

definition in_date_range :: "string option \<Rightarrow> string option \<Rightarrow> yakit \<Rightarrow> bool" where
  "in_date_range start_date end_date r =
     ((case start_date of None \<Rightarrow> True
       | Some b \<Rightarrow> (case islem_tarihi r of None \<Rightarrow> False | Some d \<Rightarrow> b \<le> d))
      \<and> (case end_date of None \<Rightarrow> True
         | Some e \<Rightarrow> (case islem_tarihi r of None \<Rightarrow> False | Some d \<Rightarrow> d \<le> e)))"

text \<open>
  Modelled from the spec: \<^verbatim>\<open>true_distance(plate, start_date?, end_date?)\<close> of
  section 4.1, the function of \<^verbatim>\<open>database.py\<close> described above: the records in the
  date range, fetched, sorted and walked as \<^verbatim>\<open>hesapla_gercek_km\<close> does.
\<close>

definition true_distance :: "yakit list \<Rightarrow> string \<Rightarrow> string option \<Rightarrow> string option \<Rightarrow> rat" where
  "true_distance tablo plate start_date end_date =
     ardisik_farklar_toplami (km_sorgusu (filter (in_date_range start_date end_date) tablo) plate)"

section \<open>Example stores\<close>

text \<open>The owner value of the fleet's own vehicles, in UTF-8 (capital dotted I).\<close>

definition bizim :: string where
  "bizim = [CHR ''B'', CHR 0xC4, CHR 0xB0, CHR ''Z'', CHR 0xC4, CHR 0xB0, CHR ''M'']"

definition ornek_agirlik :: "agirlik list" where
  "ornek_agirlik =
     [\<lparr>ag_plaka = Some ''46AJH283'', tarih = Some ''2024-01-01'', net_agirlik = Some 1000,
        birim = Some ''Kg'', ana_malzeme = Some ''Kum''\<rparr>,
      \<lparr>ag_plaka = Some ''46AJH283'', tarih = Some ''2024-01-02'', net_agirlik = Some 500,
        birim = Some ''Adet'', ana_malzeme = Some ''Palet''\<rparr>,
      \<lparr>ag_plaka = Some ''34ABC01'', tarih = Some ''2024-01-02'', net_agirlik = Some 2000,
        birim = Some ''Kg'', ana_malzeme = Some ''Cakil''\<rparr>,
      \<lparr>ag_plaka = Some ''46AJH283'', tarih = Some ''2024-01-03'', net_agirlik = Some 300,
        birim = Some ''ADet'', ana_malzeme = Some ''Kum''\<rparr>]"

definition ornek_araclar :: "arac list" where
  "ornek_araclar =
     [\<lparr>a_plaka = ''46AJH283'', sahip = bizim, arac_tipi = ''KARGO ARACI'', aktif = 1\<rparr>,
      \<lparr>a_plaka = ''34ABC01'', sahip = bizim, arac_tipi = ''KARGO ARACI'', aktif = 1\<rparr>,
      \<lparr>a_plaka = ''06XYZ99'', sahip = bizim, arac_tipi = ''BINEK ARAC'', aktif = 1\<rparr>]"

definition ornek_db :: veritabani where
  "ornek_db = \<lparr>yakit_t = ornek_yakit, agirlik_t = ornek_agirlik, araclar_t = Some ornek_araclar\<rparr>"

text \<open>The same store without any weighbridge ticket: cost, but no revenue.\<close>

definition ornek_db_gelirsiz :: veritabani where
  "ornek_db_gelirsiz = \<lparr>yakit_t = ornek_yakit, agirlik_t = [], araclar_t = Some ornek_araclar\<rparr>"

definition ornek_muhasebe :: muhasebe where
  "ornek_muhasebe =
     \<lparr>toplam_gelir = 1650, toplam_gider = 480, net_kar = 1170, kar_marji = 780 / 11,
      plaka_bazli =
        [\<lparr>pb_plaka = ''34ABC01'', pb_gelir = 1000, pb_gider = 80, pb_net_kar = 920,
           pb_kar_marji = 92, pb_ana_malzeme = ''Cakil''\<rparr>,
         \<lparr>pb_plaka = ''46AJH283'', pb_gelir = 650, pb_gider = 400, pb_net_kar = 250,
           pb_kar_marji = 500 / 13, pb_ana_malzeme = ''Kum''\<rparr>]\<rparr>"

definition ornek_muhasebe_gelirsiz :: muhasebe where
  "ornek_muhasebe_gelirsiz =
     \<lparr>toplam_gelir = 0, toplam_gider = 480, net_kar = - 480, kar_marji = 0,
      plaka_bazli =
        [\<lparr>pb_plaka = ''34ABC01'', pb_gelir = 0, pb_gider = 80, pb_net_kar = - 80,
           pb_kar_marji = 0, pb_ana_malzeme = ''Bilinmiyor''\<rparr>,
         \<lparr>pb_plaka = ''46AJH283'', pb_gelir = 0, pb_gider = 400, pb_net_kar = - 400,
           pb_kar_marji = 0, pb_ana_malzeme = ''Bilinmiyor''\<rparr>]\<rparr>"

text \<open>
  The specification's wording of a count unit: the unit \<^verbatim>\<open>Adet\<close> in any letter case.
\<close>

definition count_unit_any_case :: "string \<Rightarrow> bool" where
  "count_unit_any_case u =
     (case u of
        [a, d, e, t] \<Rightarrow> (a = CHR ''a'' \<or> a = CHR ''A'') \<and> (d = CHR ''d'' \<or> d = CHR ''D'')
                        \<and> (e = CHR ''e'' \<or> e = CHR ''E'') \<and> (t = CHR ''t'' \<or> t = CHR ''T'')
      | _ \<Rightarrow> False)"

text \<open>A store whose only ticket counts pieces, its unit written \<^verbatim>\<open>ADet\<close>.\<close>

definition ornek_db_adet :: veritabani where
  "ornek_db_adet =
     \<lparr>yakit_t = [],
      agirlik_t = [\<lparr>ag_plaka = Some ''46AJH283'', tarih = Some ''2024-01-03'',
                     net_agirlik = Some 300, birim = Some ''ADet'', ana_malzeme = Some ''Palet''\<rparr>],
      araclar_t = Some ornek_araclar\<rparr>"

definition ornek_muhasebe_adet :: muhasebe where
  "ornek_muhasebe_adet =
     \<lparr>toplam_gelir = 150, toplam_gider = 0, net_kar = 150, kar_marji = 100,
      plaka_bazli =
        [\<lparr>pb_plaka = ''46AJH283'', pb_gelir = 150, pb_gider = 0, pb_net_kar = 150,
           pb_kar_marji = 100, pb_ana_malzeme = ''Palet''\<rparr>]\<rparr>"

text \<open>One fuel record: 1 litre at odometer reading 3; no vehicle table.\<close>

definition ornek_db_ucte_bir :: veritabani where
  "ornek_db_ucte_bir =
     \<lparr>yakit_t = [\<lparr>y_id = 1, y_plaka = Some ''35P01'', islem_tarihi = Some ''2024-02-01'',
                   yakit_miktari = Some 1, birim_fiyat = Some 1, satir_tutari = Some 1,
                   km_bilgisi = Some 3\<rparr>],
      agirlik_t = [], araclar_t = None\<rparr>"

text \<open>The example store with a vehicle table that has no row.\<close>

definition ornek_db_aracsiz :: veritabani where
  "ornek_db_aracsiz = \<lparr>yakit_t = ornek_yakit, agirlik_t = ornek_agirlik, araclar_t = Some []\<rparr>"

definition bos_muhasebe :: muhasebe where
  "bos_muhasebe = \<lparr>toplam_gelir = 0, toplam_gider = 0, net_kar = 0, kar_marji = 0,
                    plaka_bazli = []\<rparr>"

text \<open>The rows of a comparison of three plates, the second of which has no record.\<close>

definition ornek_plakalar :: "string list" where
  "ornek_plakalar = [''46AJH283'', ''99ZZZ99'', ''34ABC01'']"

definition ornek_sonuclar :: "sonuc list" where
  "ornek_sonuclar =
     [\<lparr>s_plaka = ''46AJH283'', s_toplam_yakit = 200, s_toplam_maliyet = 400,
        s_gercek_km = 400, s_ortalama_tuketim = 50\<rparr>,
      \<lparr>s_plaka = ''99ZZZ99'', s_toplam_yakit = 0, s_toplam_maliyet = 0,
        s_gercek_km = 0, s_ortalama_tuketim = 0\<rparr>,
      \<lparr>s_plaka = ''34ABC01'', s_toplam_yakit = 40, s_toplam_maliyet = 80,
        s_gercek_km = 0, s_ortalama_tuketim = 0\<rparr>]"

text \<open>The fuel records of the example dated from 2024-01-02 to 2024-01-03.\<close>

definition ornek_yakit_aralik :: "yakit list" where
  "ornek_yakit_aralik =
     filter (\<lambda>r. case islem_tarihi r of None \<Rightarrow> False
                  | Some d \<Rightarrow> ''2024-01-02'' \<le> d \<and> d \<le> ''2024-01-03'') ornek_yakit"

section \<open>The reconstruction is the sum of the positive consecutive deltas\<close>

lemma km_dongusu_Some:
  "km_dongusu rows toplam (Some onceki) = toplam + positive_delta_sum (onceki # rows)"
proof (induction rows arbitrary: toplam onceki)
  case Nil
  show ?case by (simp add: positive_delta_sum_def consecutive_deltas_def)
next
  case (Cons km rows)
  show ?case
    by (simp add: Cons.IH Let_def positive_delta_sum_def consecutive_deltas_def)
qed

lemma km_dongusu_None: "km_dongusu rows 0 None = positive_delta_sum rows"
  by (cases rows) (simp_all add: km_dongusu_Some positive_delta_sum_def consecutive_deltas_def)

lemma ardisik_farklar_toplami_eq: "ardisik_farklar_toplami rows = positive_delta_sum rows"
proof (cases rows)
  case Nil
  then show ?thesis
    by (simp add: ardisik_farklar_toplami_def positive_delta_sum_def consecutive_deltas_def)
next
  case (Cons k ks)
  then show ?thesis
    by (cases ks)
      (simp_all add: ardisik_farklar_toplami_def km_dongusu_None positive_delta_sum_def
        consecutive_deltas_def)
qed

lemma positive_delta_sum_step:
  "positive_delta_sum (p # c # rest) =
     (if c - p > 0 then c - p else 0) + positive_delta_sum (c # rest)"
  by (simp add: positive_delta_sum_def consecutive_deltas_def)

lemma positive_delta_sum_short: "length ks < 2 \<Longrightarrow> positive_delta_sum ks = 0"
  by (cases ks) (simp_all add: positive_delta_sum_def consecutive_deltas_def)

lemma positive_delta_sum_snoc:
  "ks \<noteq> [] \<Longrightarrow>
   positive_delta_sum (ks @ [k]) =
     positive_delta_sum ks + (if k - last ks > 0 then k - last ks else 0)"
proof (induction ks rule: induct_list012)
  case 1
  then show ?case by simp
next
  case (2 x)
  show ?case by (simp add: positive_delta_sum_def consecutive_deltas_def)
next
  case (3 x y zs)
  then show ?case by (simp add: positive_delta_sum_def consecutive_deltas_def)
qed

lemma map_filter_all_Some:
  "\<forall>r\<in>set rs. f r \<noteq> None \<Longrightarrow> map f rs = map Some (List.map_filter f rs)"
  by (induction rs) (auto simp add: map_filter_simps)

lemma km_kayitlari_readings:
  "map km_bilgisi (km_kayitlari tablo plaka) = map Some (km_sorgusu tablo plaka)"
  unfolding km_sorgusu_def
  by (rule map_filter_all_Some)
    (auto simp add: km_kayitlari_def km_pozitif_def split: option.splits)

text \<open>
  Claim C1. For every plate, \<^verbatim>\<open>hesapla_gercek_km\<close> returns the sum of exactly the
  positive differences between consecutive odometer readings. The readings are those of
  the records of the plate whose reading is present and positive, in ascending order of
  date and, within a date, of id. With fewer than two such readings the result is 0. A
  pair \<open>(prev, cur)\<close> adds its difference if that is positive and nothing otherwise,
  and in both cases the walk goes on from \<open>cur\<close>. The readings 100, 250, 50, 300
  give 400, as a bare sequence and as four rows of the table inserted out of
  chronological order.
\<close>

theorem hesapla_gercek_km_positive_deltas:
  "hesapla_gercek_km tablo plaka = positive_delta_sum (km_sorgusu tablo plaka)
   \<and> map km_bilgisi (km_kayitlari tablo plaka) = map Some (km_sorgusu tablo plaka)
   \<and> set (km_kayitlari tablo plaka) = {r \<in> set tablo. y_plaka r = Some plaka \<and> km_pozitif r}
   \<and> sorted (map (\<lambda>r. (islem_tarihi r, y_id r)) (km_kayitlari tablo plaka))
   \<and> (length (km_sorgusu tablo plaka) < 2 \<longrightarrow> hesapla_gercek_km tablo plaka = 0)
   \<and> ardisik_farklar_toplami (prev # cur # rest) =
       (if cur - prev > 0 then cur - prev else 0) + ardisik_farklar_toplami (cur # rest)
   \<and> ardisik_farklar_toplami [100, 250, 50, 300] = 400
   \<and> km_sorgusu ornek_yakit ''46AJH283'' = [100, 250, 50, 300]
   \<and> hesapla_gercek_km ornek_yakit ''46AJH283'' = 400"
proof -
  have a: "hesapla_gercek_km tablo plaka = positive_delta_sum (km_sorgusu tablo plaka)"
    by (simp add: hesapla_gercek_km_def ardisik_farklar_toplami_eq)
  have k: "map km_bilgisi (km_kayitlari tablo plaka) = map Some (km_sorgusu tablo plaka)"
    by (rule km_kayitlari_readings)
  have q: "set (km_kayitlari tablo plaka) = {r \<in> set tablo. y_plaka r = Some plaka \<and> km_pozitif r}"
    by (simp add: km_kayitlari_def)
  have o: "sorted (map (\<lambda>r. (islem_tarihi r, y_id r)) (km_kayitlari tablo plaka))"
    by (simp add: km_kayitlari_def)
  have b: "length (km_sorgusu tablo plaka) < 2 \<longrightarrow> hesapla_gercek_km tablo plaka = 0"
    by (simp add: hesapla_gercek_km_def ardisik_farklar_toplami_def)
  have c: "ardisik_farklar_toplami (prev # cur # rest) =
       (if cur - prev > 0 then cur - prev else 0) + ardisik_farklar_toplami (cur # rest)"
    unfolding ardisik_farklar_toplami_eq by (rule positive_delta_sum_step)
  have d: "ardisik_farklar_toplami [100, 250, 50, 300] = 400"
    by (simp add: ardisik_farklar_toplami_def)
  have e: "km_sorgusu ornek_yakit ''46AJH283'' = [100, 250, 50, 300]"
    by code_simp
  have f: "hesapla_gercek_km ornek_yakit ''46AJH283'' = 400"
    unfolding hesapla_gercek_km_def e by (rule d)
  from a k q o b c d e f show ?thesis by blast
qed

theorem hesapla_gercek_km_positive_deltas_witness:
  "length (km_sorgusu ornek_yakit ''34ABC01'') < 2
   \<and> hesapla_gercek_km ornek_yakit ''34ABC01'' = 0"
proof -
  have h: "length (km_sorgusu ornek_yakit ''34ABC01'') < 2"
    by code_simp
  from hesapla_gercek_km_positive_deltas [of ornek_yakit "''34ABC01''"] h
  show ?thesis by blast
qed

text \<open>
  Claim C9. For every non-empty sequence of odometer readings and every new reading
  appended after it whose difference from the last reading is positive, the distance
  reconstructed from the longer sequence is at least the distance reconstructed from
  the original one.
\<close>

theorem true_distance_monotone_append:
  assumes "ks \<noteq> []" and "k - last ks > 0"
  shows "ardisik_farklar_toplami ks \<le> ardisik_farklar_toplami (ks @ [k])"
  using assms by (simp add: ardisik_farklar_toplami_eq positive_delta_sum_snoc)

theorem true_distance_monotone_append_witness:
  "[100, 250, 50 :: rat] \<noteq> [] \<and> (300 :: rat) - last [100, 250, 50] > 0
   \<and> ardisik_farklar_toplami [100, 250, 50] \<le> ardisik_farklar_toplami ([100, 250, 50] @ [300])"
proof -
  have h1: "[100, 250, 50 :: rat] \<noteq> []" by simp
  have h2: "(300 :: rat) - last [100, 250, 50] > 0" by simp
  from true_distance_monotone_append [OF h1 h2] h1 h2 show ?thesis by blast
qed

section \<open>Accounting: profit, margin and order\<close>

lemma sort_reverse_sorted:
  "sorted_wrt (\<lambda>x y. key x \<ge> key y) (sort_reverse key xs)"
proof -
  have "sorted (map key (sort_key key (rev xs)))" by simp
  then have "sorted_wrt (\<lambda>x y. key x \<le> key y) (sort_key key (rev xs))"
    by (simp add: sorted_wrt_map)
  then show ?thesis
    by (simp add: sort_reverse_def sorted_wrt_rev)
qed

lemma set_sort_reverse: "set (sort_reverse key xs) = set xs"
  by (simp add: sort_reverse_def)

lemma sum_list_insort_key:
  fixes f :: "'a \<Rightarrow> rat"
  shows "sum_list (map f (insort_key k x xs)) = f x + sum_list (map f xs)"
  by (induction xs) simp_all

lemma sum_list_sort_key:
  fixes f :: "'a \<Rightarrow> rat"
  shows "sum_list (map f (sort_key k xs)) = sum_list (map f xs)"
  by (induction xs) (simp_all add: sum_list_insort_key)

lemma sum_list_sort_reverse:
  fixes f :: "'a \<Rightarrow> rat"
  shows "sum_list (map f (sort_reverse k xs)) = sum_list (map f xs)"
proof -
  have "sum_list (map f (sort_reverse k xs)) = sum_list (rev (map f (sort_key k (rev xs))))"
    by (simp add: sort_reverse_def rev_map)
  also have "\<dots> = sum_list (map f (sort_key k (rev xs)))"
    by (rule sum_list_rev)
  also have "\<dots> = sum_list (map f (rev xs))"
    by (rule sum_list_sort_key)
  also have "\<dots> = sum_list (rev (map f xs))"
    by (simp add: rev_map)
  also have "\<dots> = sum_list (map f xs)"
    by (rule sum_list_rev)
  finally show ?thesis .
qed

lemma plaka_satiri_yap_formulas:
  "pb_net_kar (plaka_satiri_yap pv) = pb_gelir (plaka_satiri_yap pv) - pb_gider (plaka_satiri_yap pv)
   \<and> pb_kar_marji (plaka_satiri_yap pv) =
       (if pb_gelir (plaka_satiri_yap pv) > 0
        then pb_net_kar (plaka_satiri_yap pv) / pb_gelir (plaka_satiri_yap pv) * 100 else 0)"
  by (simp add: plaka_satiri_yap_def Let_def)

lemma muhasebe_hesapla_formulas:
  fixes r
  assumes "r = muhasebe_hesapla ys gs"
  shows "net_kar r = toplam_gelir r - toplam_gider r"
    and "kar_marji r = (if toplam_gelir r > 0 then net_kar r / toplam_gelir r * 100 else 0)"
    and "\<forall>x\<in>set (plaka_bazli r).
           pb_net_kar x = pb_gelir x - pb_gider x
           \<and> pb_kar_marji x = (if pb_gelir x > 0 then pb_net_kar x / pb_gelir x * 100 else 0)"
    and "sorted_wrt (\<lambda>x y. pb_net_kar x \<ge> pb_net_kar y) (plaka_bazli r)"
    and "toplam_gelir r = sum_list (map pb_gelir (plaka_bazli r))"
    and "toplam_gider r = sum_list (map pb_gider (plaka_bazli r))"
proof -
  show "net_kar r = toplam_gelir r - toplam_gider r"
    by (simp add: assms muhasebe_hesapla_def Let_def)
  show "kar_marji r = (if toplam_gelir r > 0 then net_kar r / toplam_gelir r * 100 else 0)"
    by (simp add: assms muhasebe_hesapla_def Let_def)
  show "\<forall>x\<in>set (plaka_bazli r).
           pb_net_kar x = pb_gelir x - pb_gider x
           \<and> pb_kar_marji x = (if pb_gelir x > 0 then pb_net_kar x / pb_gelir x * 100 else 0)"
    using plaka_satiri_yap_formulas
    by (auto simp add: assms muhasebe_hesapla_def Let_def set_sort_reverse)
  show "sorted_wrt (\<lambda>x y. pb_net_kar x \<ge> pb_net_kar y) (plaka_bazli r)"
    by (simp add: assms muhasebe_hesapla_def Let_def sort_reverse_sorted)
  have pg: "pb_gelir \<circ> plaka_satiri_yap = (\<lambda>pv. v_gelir (snd pv))"
    by (rule ext) (simp add: plaka_satiri_yap_def Let_def)
  have pd: "pb_gider \<circ> plaka_satiri_yap = (\<lambda>pv. v_gider (snd pv))"
    by (rule ext) (simp add: plaka_satiri_yap_def Let_def)
  show "toplam_gelir r = sum_list (map pb_gelir (plaka_bazli r))"
    by (simp add: assms muhasebe_hesapla_def Let_def sum_list_sort_reverse pg)
  show "toplam_gider r = sum_list (map pb_gider (plaka_bazli r))"
    by (simp add: assms muhasebe_hesapla_def Let_def sum_list_sort_reverse pd)
qed


text \<open>
  Claim C4. For every result of \<^verbatim>\<open>get_muhasebe_data\<close> that is not an error: the net
  profit is the total revenue minus the total cost (the totals being the sums over the
  per-plate entries); the profit margin is net profit / revenue * 100 when the revenue
  is positive and 0 otherwise, in particular 0 at revenue 0, for the fleet and for each
  per-plate entry; and the per-plate list is in descending order of net profit.
\<close>

theorem get_muhasebe_data_profit_margin_sorted:
  assumes "get_muhasebe_data db baslangic_tarihi bitis_tarihi plaka = Inr r"
  shows "net_kar r = toplam_gelir r - toplam_gider r
    \<and> toplam_gelir r = sum_list (map pb_gelir (plaka_bazli r))
    \<and> toplam_gider r = sum_list (map pb_gider (plaka_bazli r))
    \<and> kar_marji r = (if toplam_gelir r > 0 then net_kar r / toplam_gelir r * 100 else 0)
    \<and> (toplam_gelir r = 0 \<longrightarrow> kar_marji r = 0)
    \<and> (\<forall>x\<in>set (plaka_bazli r).
           pb_net_kar x = pb_gelir x - pb_gider x
           \<and> pb_kar_marji x = (if pb_gelir x > 0 then pb_net_kar x / pb_gelir x * 100 else 0)
           \<and> (pb_gelir x = 0 \<longrightarrow> pb_kar_marji x = 0))
    \<and> sorted_wrt (\<lambda>x y. pb_net_kar x \<ge> pb_net_kar y) (plaka_bazli r)"
proof -
  from assms obtain ys gs where r: "r = muhasebe_hesapla ys gs"
    by (auto simp add: get_muhasebe_data_def split: option.splits)
  note f = muhasebe_hesapla_formulas [OF r]
  have m0: "toplam_gelir r = 0 \<longrightarrow> kar_marji r = 0"
    using f(2) by simp
  have p0: "\<forall>x\<in>set (plaka_bazli r).
           pb_net_kar x = pb_gelir x - pb_gider x
           \<and> pb_kar_marji x = (if pb_gelir x > 0 then pb_net_kar x / pb_gelir x * 100 else 0)
           \<and> (pb_gelir x = 0 \<longrightarrow> pb_kar_marji x = 0)"
    using f(3) by simp
  from f(1) f(5) f(6) f(2) m0 p0 f(4) show ?thesis by blast
qed

theorem get_muhasebe_data_profit_margin_sorted_witness:
  "get_muhasebe_data ornek_db None None None = Inr ornek_muhasebe
   \<and> net_kar ornek_muhasebe = toplam_gelir ornek_muhasebe - toplam_gider ornek_muhasebe
   \<and> sorted_wrt (\<lambda>x y. pb_net_kar x \<ge> pb_net_kar y) (plaka_bazli ornek_muhasebe)
   \<and> get_muhasebe_data ornek_db_gelirsiz None None None = Inr ornek_muhasebe_gelirsiz
   \<and> toplam_gelir ornek_muhasebe_gelirsiz = 0
   \<and> kar_marji ornek_muhasebe_gelirsiz = 0
   \<and> pb_gelir (hd (plaka_bazli ornek_muhasebe_gelirsiz)) = 0
   \<and> pb_kar_marji (hd (plaka_bazli ornek_muhasebe_gelirsiz)) = 0"
proof -
  have a: "get_muhasebe_data ornek_db None None None = Inr ornek_muhasebe"
    by code_simp
  have b: "get_muhasebe_data ornek_db_gelirsiz None None None = Inr ornek_muhasebe_gelirsiz"
    by code_simp
  have z: "toplam_gelir ornek_muhasebe_gelirsiz = 0"
    by (simp add: ornek_muhasebe_gelirsiz_def)
  have h: "hd (plaka_bazli ornek_muhasebe_gelirsiz) \<in> set (plaka_bazli ornek_muhasebe_gelirsiz)"
    by (simp add: ornek_muhasebe_gelirsiz_def)
  have hz: "pb_gelir (hd (plaka_bazli ornek_muhasebe_gelirsiz)) = 0"
    by (simp add: ornek_muhasebe_gelirsiz_def)
  from get_muhasebe_data_profit_margin_sorted [OF a]
       get_muhasebe_data_profit_margin_sorted [OF b] a b z h hz
  show ?thesis by blast
qed

section \<open>Accounting: revenue and cost of a plate\<close>

lemma map_of_guncelle:
  "map_of (guncelle p f d) q =
     (if q = p then Some (f (case map_of d p of None \<Rightarrow> varsayilan | Some v \<Rightarrow> v))
      else map_of d q)"
  by (induction d) auto

lemma map_fst_guncelle:
  "map fst (guncelle p f d) = (if p \<in> set (map fst d) then map fst d else map fst d @ [p])"
proof (induction d)
  case Nil
  show ?case by simp
next
  case (Cons qv d)
  obtain q v where qv: "qv = (q, v)" by (cases qv)
  show ?case
  proof (cases "p = q")
    case True
    with qv show ?thesis by simp
  next
    case False
    with qv Cons.IH show ?thesis by simp
  qed
qed

lemma distinct_guncelle:
  "distinct (map fst d) \<Longrightarrow> distinct (map fst (guncelle p f d))"
  by (simp add: map_fst_guncelle)

lemma distinct_fold_yakit_isle:
  "distinct (map fst d) \<Longrightarrow> distinct (map fst (fold yakit_isle rows d))"
  by (induction rows arbitrary: d) (simp_all add: yakit_isle_def distinct_guncelle)

lemma distinct_fold_agirlik_isle:
  "distinct (map fst d) \<Longrightarrow> distinct (map fst (fold agirlik_isle rows d))"
  by (induction rows arbitrary: d) (simp_all add: agirlik_isle_def distinct_guncelle)

lemma map_of_yakit_isle:
  "map_of (yakit_isle (k, s) d) q =
     (if q = k then Some ((case map_of d k of None \<Rightarrow> varsayilan | Some v \<Rightarrow> v)
                            \<lparr>v_gider := veya_sifir s\<rparr>)
      else map_of d q)"
  by (simp add: yakit_isle_def map_of_guncelle)

lemma map_of_agirlik_isle:
  "map_of (agirlik_isle (k, sm) d) q =
     (if q = k then Some ((case map_of d k of None \<Rightarrow> varsayilan | Some v \<Rightarrow> v)
                            \<lparr>v_gelir := veya_sifir (fst sm),
                              v_ana_malzeme := veya_bilinmiyor (snd sm)\<rparr>)
      else map_of d q)"
  by (simp add: agirlik_isle_def map_of_guncelle)

lemma map_of_fold_yakit_isle:
  "distinct (map fst rows) \<Longrightarrow>
   map_of (fold yakit_isle rows d) q =
     (case map_of rows q of
        None \<Rightarrow> map_of d q
      | Some s \<Rightarrow> Some ((case map_of d q of None \<Rightarrow> varsayilan | Some v \<Rightarrow> v)
                          \<lparr>v_gider := veya_sifir s\<rparr>))"
proof (induction rows arbitrary: d)
  case Nil
  show ?case by simp
next
  case (Cons row rows)
  obtain k s where row: "row = (k, s)" by (cases row)
  from Cons.prems row have d: "distinct (map fst rows)" and k: "k \<notin> fst ` set rows"
    by simp_all
  from k have none: "map_of rows k = None"
    by (simp add: map_of_eq_None_iff)
  have step: "map_of (fold yakit_isle (row # rows) d) q =
     (case map_of rows q of
        None \<Rightarrow> map_of (yakit_isle (k, s) d) q
      | Some s' \<Rightarrow> Some ((case map_of (yakit_isle (k, s) d) q of None \<Rightarrow> varsayilan | Some v \<Rightarrow> v)
                          \<lparr>v_gider := veya_sifir s'\<rparr>))"
    using Cons.IH [OF d, of "yakit_isle (k, s) d"] row by simp
  show ?case
  proof (cases "q = k")
    case True
    with none row step show ?thesis
      by (simp add: map_of_yakit_isle)
  next
    case False
    with row step show ?thesis
      by (simp add: map_of_yakit_isle split: option.splits)
  qed
qed

lemma map_of_fold_agirlik_isle:
  "distinct (map fst rows) \<Longrightarrow>
   map_of (fold agirlik_isle rows d) q =
     (case map_of rows q of
        None \<Rightarrow> map_of d q
      | Some sm \<Rightarrow> Some ((case map_of d q of None \<Rightarrow> varsayilan | Some v \<Rightarrow> v)
                          \<lparr>v_gelir := veya_sifir (fst sm),
                            v_ana_malzeme := veya_bilinmiyor (snd sm)\<rparr>))"
proof (induction rows arbitrary: d)
  case Nil
  show ?case by simp
next
  case (Cons row rows)
  obtain k sm where row: "row = (k, sm)" by (cases row)
  from Cons.prems row have d: "distinct (map fst rows)" and k: "k \<notin> fst ` set rows"
    by simp_all
  from k have none: "map_of rows k = None"
    by (simp add: map_of_eq_None_iff)
  have step: "map_of (fold agirlik_isle (row # rows) d) q =
     (case map_of rows q of
        None \<Rightarrow> map_of (agirlik_isle (k, sm) d) q
      | Some sm' \<Rightarrow> Some ((case map_of (agirlik_isle (k, sm) d) q of None \<Rightarrow> varsayilan | Some v \<Rightarrow> v)
                          \<lparr>v_gelir := veya_sifir (fst sm'),
                            v_ana_malzeme := veya_bilinmiyor (snd sm')\<rparr>))"
    using Cons.IH [OF d, of "agirlik_isle (k, sm) d"] row by simp
  show ?case
  proof (cases "q = k")
    case True
    with none row step show ?thesis
      by (simp add: map_of_agirlik_isle)
  next
    case False
    with row step show ?thesis
      by (simp add: map_of_agirlik_isle split: option.splits)
  qed
qed

text \<open>What an entry of the dictionary holds.\<close>

lemma plaka_veriler_entry:
  assumes dy: "distinct (map fst yrs)" and da: "distinct (map fst ars)"
      and mem: "(p, v) \<in> set (fold agirlik_isle ars (fold yakit_isle yrs []))"
  shows "v_gider v = (case map_of yrs p of None \<Rightarrow> 0 | Some s \<Rightarrow> veya_sifir s)"
    and "v_gelir v = (case map_of ars p of None \<Rightarrow> 0 | Some sm \<Rightarrow> veya_sifir (fst sm))"
    and "map_of yrs p \<noteq> None \<or> map_of ars p \<noteq> None"
proof -
  let ?d1 = "fold yakit_isle yrs []"
  let ?d2 = "fold agirlik_isle ars ?d1"
  have "distinct (map fst ?d2)"
    by (simp add: distinct_fold_agirlik_isle distinct_fold_yakit_isle)
  with mem have m: "map_of ?d2 p = Some v" by simp
  have m1: "map_of ?d1 p =
      (case map_of yrs p of None \<Rightarrow> None | Some s \<Rightarrow> Some (varsayilan\<lparr>v_gider := veya_sifir s\<rparr>))"
    using map_of_fold_yakit_isle [OF dy, of "[]" p] by (simp split: option.splits)
  note m2 = map_of_fold_agirlik_isle [OF da, of ?d1 p]
  show "v_gider v = (case map_of yrs p of None \<Rightarrow> 0 | Some s \<Rightarrow> veya_sifir s)"
    using m m1 m2 by (auto simp add: varsayilan_def split: option.splits)
  show "v_gelir v = (case map_of ars p of None \<Rightarrow> 0 | Some sm \<Rightarrow> veya_sifir (fst sm))"
    using m m1 m2 by (auto simp add: varsayilan_def split: option.splits)
  show "map_of yrs p \<noteq> None \<or> map_of ars p \<noteq> None"
    using m m1 m2 by (auto split: option.splits)
qed

lemma map_of_grupla:
  "map_of (map (\<lambda>(k, g). (k, F g)) (grupla key J)) p =
     (if p \<in> key ` set J then Some (F (filter (\<lambda>r. key r = p) J)) else None)"
proof -
  have "map (\<lambda>(k, g). (k, F g)) (grupla key J) =
        map (\<lambda>k. (k, F (filter (\<lambda>r. key r = k) J))) (sort (remdups (map key J)))"
    by (simp add: grupla_def)
  then show ?thesis
    by (simp add: map_of_map_restrict restrict_map_def)
qed

lemma distinct_grupla:
  "distinct (map fst (map (\<lambda>(k, g). (k, F g)) (grupla key J)))"
proof -
  have "map fst (map (\<lambda>(k, g). (k, F g)) (grupla key J)) = sort (remdups (map key J))"
    by (simp add: grupla_def comp_def)
  then show ?thesis by simp
qed

lemma veya_sifir_sql_sum: "veya_sifir (sql_sum vs) = sum_list (List.map_filter id vs)"
  by (simp add: veya_sifir_def sql_sum_def Let_def)

lemma filter_key_distinct:
  "distinct (map g xs) \<Longrightarrow> a \<in> set xs \<Longrightarrow> filter (\<lambda>x. g x = g a) xs = [a]"
proof (induction xs)
  case Nil
  then show ?case by simp
next
  case (Cons x xs)
  show ?case
  proof (cases "x = a")
    case True
    from Cons.prems have "g x \<notin> g ` set xs" by simp
    then have "filter (\<lambda>y. g y = g x) xs = []"
      unfolding filter_empty_conv by (metis imageI)
    with True show ?thesis by simp
  next
    case False
    with Cons.prems have a: "a \<in> set xs" by simp
    from Cons.prems a have "g x \<noteq> g a" by auto
    with Cons a show ?thesis by simp
  qed
qed

text \<open>The rows of one plate in the filtered join, projected to the left table.\<close>

lemma ic_birlesim_plate:
  assumes d: "distinct (map a_plaka araclar)"
  shows "map fst (filter (\<lambda>(r, a). a_plaka a = p)
           (filter (\<lambda>(r, a). C r \<and> kargo_aktif a) (ic_birlesim plaka_of rows araclar)))
         = (if \<exists>a\<in>set araclar. a_plaka a = p \<and> kargo_aktif a
            then filter (\<lambda>r. plaka_of r = Some p \<and> C r) rows else [])"
proof (induction rows)
  case Nil
  show ?case by (simp add: ic_birlesim_def)
next
  case (Cons r rows)
  have one: "map fst (filter (\<lambda>(r, a). a_plaka a = p)
           (filter (\<lambda>(r, a). C r \<and> kargo_aktif a)
             (map (\<lambda>a. (r, a)) (filter (\<lambda>a. plaka_of r = Some (a_plaka a)) araclar))))
         = (if (\<exists>a\<in>set araclar. a_plaka a = p \<and> kargo_aktif a) \<and> plaka_of r = Some p \<and> C r
            then [r] else [])"
  proof (cases "plaka_of r = Some p \<and> C r")
    case False
    then show ?thesis by (auto simp add: filter_map comp_def filter_empty_conv)
  next
    case True
    show ?thesis
    proof (cases "\<exists>a\<in>set araclar. a_plaka a = p")
      case False
      then show ?thesis by (auto simp add: filter_map comp_def filter_empty_conv)
    next
      case ex: True
      then obtain a where a: "a \<in> set araclar" "a_plaka a = p" by blast
      have f: "filter (\<lambda>x. a_plaka x = a_plaka a) araclar = [a]"
        by (rule filter_key_distinct [OF d a(1)])
      have "filter (\<lambda>x. plaka_of r = Some (a_plaka x)) araclar = [a]"
        using f True a(2) by (simp add: eq_commute)
      moreover have "(\<exists>a'\<in>set araclar. a_plaka a' = p \<and> kargo_aktif a') = kargo_aktif a"
      proof
        assume "\<exists>a'\<in>set araclar. a_plaka a' = p \<and> kargo_aktif a'"
        then obtain a' where a': "a' \<in> set araclar" "a_plaka a' = p" "kargo_aktif a'" by blast
        from a'(1) a'(2) a(2) have "a' \<in> set (filter (\<lambda>x. a_plaka x = a_plaka a) araclar)"
          by simp
        with f have "a' \<in> set [a]" by simp
        with a'(3) show "kargo_aktif a" by simp
      next
        assume "kargo_aktif a"
        with a show "\<exists>a'\<in>set araclar. a_plaka a' = p \<and> kargo_aktif a'" by blast
      qed
      ultimately show ?thesis using True a(2) by simp
    qed
  qed
  let ?P = "\<lambda>(r :: 'a, a). a_plaka a = p"
  let ?Q = "\<lambda>(r, a). C r \<and> kargo_aktif a"
  let ?A = "map (\<lambda>a. (r, a)) (filter (\<lambda>a. plaka_of r = Some (a_plaka a)) araclar)"
  have "map fst (filter ?P (filter ?Q (ic_birlesim plaka_of (r # rows) araclar))) =
        map fst (filter ?P (filter ?Q ?A))
        @ map fst (filter ?P (filter ?Q (ic_birlesim plaka_of rows araclar)))"
    by (simp add: ic_birlesim_def)
  also have "\<dots> =
        (if (\<exists>a\<in>set araclar. a_plaka a = p \<and> kargo_aktif a) \<and> plaka_of r = Some p \<and> C r
         then [r] else [])
        @ (if \<exists>a\<in>set araclar. a_plaka a = p \<and> kargo_aktif a
           then filter (\<lambda>r. plaka_of r = Some p \<and> C r) rows else [])"
    by (simp only: one Cons.IH)
  also have "\<dots> = (if \<exists>a\<in>set araclar. a_plaka a = p \<and> kargo_aktif a
            then filter (\<lambda>r. plaka_of r = Some p \<and> C r) (r # rows) else [])"
    by auto
  finally show ?case .
qed


lemma map_filter_map: "List.map_filter f (map g xs) = List.map_filter (\<lambda>x. f (g x)) xs"
  by (induction xs) (simp_all add: map_filter_simps split: option.splits)

lemma sum_list_half:
  fixes f :: "'a \<Rightarrow> rat option"
  shows "sum_list (List.map_filter (\<lambda>x. map_option (\<lambda>w. w * (1 / 2)) (f x)) gs)
     = (1 / 2) * sum_list (List.map_filter f gs)"
proof (induction gs)
  case Nil
  show ?case by (simp add: map_filter_simps)
next
  case (Cons g gs)
  then show ?case
    by (cases "f g") (simp_all add: map_filter_simps algebra_simps)
qed

text \<open>
  Claim C5, as amended. With the vehicle table present and its plates unique, every
  per-plate entry of a result of \<^verbatim>\<open>get_muhasebe_data\<close> has as revenue 0.5 times the
  sum of the net weights of that plate's weight records, in the date range in effect,
  whose unit is present and is none of the three spellings \<^verbatim>\<open>Adet\<close>, \<^verbatim>\<open>adet\<close>,
  \<^verbatim>\<open>ADET\<close>, and as cost the sum of the line totals of that plate's fuel records in the
  date range in effect; the plate is an active vehicle of type \<^verbatim>\<open>KARGO ARACI\<close>, and
  it is the requested plate when one is requested.
\<close>

theorem get_muhasebe_data_revenue_cost:
  assumes ar: "araclar_t db = Some araclar"
      and di: "distinct (map a_plaka araclar)"
      and res: "get_muhasebe_data db baslangic_tarihi bitis_tarihi plaka = Inr r"
      and mem: "x \<in> set (plaka_bazli r)"
  shows "pb_gelir x = (1 / 2) * sum_list (List.map_filter net_agirlik
             (filter (\<lambda>g. ag_plaka g = Some (pb_plaka x)
                          \<and> tarih_kosulu baslangic_tarihi bitis_tarihi (tarih g)
                          \<and> urun_birimi (birim g)) (agirlik_t db)))
       \<and> pb_gider x = sum_list (List.map_filter satir_tutari
             (filter (\<lambda>y. y_plaka y = Some (pb_plaka x)
                          \<and> tarih_kosulu baslangic_tarihi bitis_tarihi (islem_tarihi y))
                (yakit_t db)))
       \<and> (\<exists>a\<in>set araclar. a_plaka a = pb_plaka x \<and> kargo_aktif a)
       \<and> plaka_kosulu plaka (Some (pb_plaka x))"
proof -
  let ?Jy = "filter (\<lambda>(y, a). (tarih_kosulu baslangic_tarihi bitis_tarihi (islem_tarihi y)
                             \<and> plaka_kosulu plaka (y_plaka y)) \<and> kargo_aktif a)
             (ic_birlesim y_plaka (yakit_t db) araclar)"
  let ?Ja = "filter (\<lambda>(ag, a). (tarih_kosulu baslangic_tarihi bitis_tarihi (tarih ag)
                              \<and> plaka_kosulu plaka (ag_plaka ag)
                              \<and> urun_birimi (birim ag)) \<and> kargo_aktif a)
             (ic_birlesim ag_plaka (agirlik_t db) araclar)"
  let ?Fy = "\<lambda>g. sql_sum (map (\<lambda>(y, a). satir_tutari y) g)"
  let ?Fa = "\<lambda>g. (sql_sum (map (\<lambda>(ag, a). map_option (\<lambda>w. w * (1 / 2)) (net_agirlik ag)) g),
                  sql_max (map (\<lambda>(ag, a). ana_malzeme ag) g))"
  let ?yrs = "map (\<lambda>(k, g). (k, ?Fy g)) (grupla (\<lambda>(y, a). a_plaka a) ?Jy)"
  let ?ars = "map (\<lambda>(k, g). (k, ?Fa g)) (grupla (\<lambda>(ag, a). a_plaka a) ?Ja)"
  have yrs: "muhasebe_yakit_rows (yakit_t db) araclar baslangic_tarihi bitis_tarihi plaka = ?yrs"
    by (simp add: muhasebe_yakit_rows_def conj_assoc)
  have ars: "muhasebe_agirlik_rows (agirlik_t db) araclar baslangic_tarihi bitis_tarihi plaka = ?ars"
    by (simp add: muhasebe_agirlik_rows_def conj_assoc)
  from res ar have r: "r = muhasebe_hesapla ?yrs ?ars"
    by (simp add: get_muhasebe_data_def yrs ars)
  let ?D = "fold agirlik_isle ?ars (fold yakit_isle ?yrs [])"
  from mem r obtain p v where pv: "(p, v) \<in> set ?D" and x: "x = plaka_satiri_yap (p, v)"
    by (auto simp add: muhasebe_hesapla_def Let_def set_sort_reverse)
  have xp: "pb_plaka x = p" and xg: "pb_gelir x = v_gelir v" and xd: "pb_gider x = v_gider v"
    by (simp_all add: x plaka_satiri_yap_def Let_def)
  note e = plaka_veriler_entry [OF distinct_grupla distinct_grupla pv]
  let ?E = "\<exists>a\<in>set araclar. a_plaka a = p \<and> kargo_aktif a"
  have gy: "map fst (filter (\<lambda>(y, a). a_plaka a = p) ?Jy) =
            (if ?E then filter (\<lambda>y. y_plaka y = Some p
                          \<and> tarih_kosulu baslangic_tarihi bitis_tarihi (islem_tarihi y)
                          \<and> plaka_kosulu plaka (y_plaka y)) (yakit_t db) else [])"
    by (rule ic_birlesim_plate [OF di])
  have ga: "map fst (filter (\<lambda>(g, a). a_plaka a = p) ?Ja) =
            (if ?E then filter (\<lambda>g. ag_plaka g = Some p
                          \<and> tarih_kosulu baslangic_tarihi bitis_tarihi (tarih g)
                          \<and> plaka_kosulu plaka (ag_plaka g)
                          \<and> urun_birimi (birim g)) (agirlik_t db) else [])"
    by (rule ic_birlesim_plate [OF di])
  have key_y: "(\<lambda>r. (case r of (y, a) \<Rightarrow> a_plaka a) = p) = (\<lambda>(y :: yakit, a). a_plaka a = p)"
    by (rule ext) (simp add: case_prod_beta)
  have key_a: "(\<lambda>r. (case r of (y, a) \<Rightarrow> a_plaka a) = p) = (\<lambda>(y :: agirlik, a). a_plaka a = p)"
    by (rule ext) (simp add: case_prod_beta)
  have fy: "(\<lambda>x. id (case x of (y, a) \<Rightarrow> satir_tutari y)) = (\<lambda>x :: yakit \<times> arac. satir_tutari (fst x))"
    by (rule ext) (simp add: case_prod_beta)
  have fa: "(\<lambda>x. id (case x of (ag, a) \<Rightarrow> map_option (\<lambda>w. w * (1 / 2)) (net_agirlik ag)))
           = (\<lambda>x :: agirlik \<times> arac. map_option (\<lambda>w. w * (1 / 2)) (net_agirlik (fst x)))"
    by (rule ext) (simp add: case_prod_beta)
  have sum_y: "\<And>G :: (yakit \<times> arac) list. veya_sifir (?Fy G) = sum_list (List.map_filter satir_tutari (map fst G))"
    by (simp add: veya_sifir_sql_sum map_filter_map case_prod_beta)
  have sum_a: "veya_sifir (fst (?Fa G)) =
       (1 / 2) * sum_list (List.map_filter net_agirlik (map fst G))" for G :: "(agirlik \<times> arac) list"
  proof -
    have "veya_sifir (fst (?Fa G)) =
          sum_list (List.map_filter id
            (map (\<lambda>(ag, a). map_option (\<lambda>w. w * (1 / 2)) (net_agirlik ag)) G))"
      by (simp only: fst_conv veya_sifir_sql_sum)
    also have "\<dots> = sum_list (List.map_filter
            (\<lambda>x. map_option (\<lambda>w. w * (1 / 2)) (net_agirlik (fst x))) G)"
      by (simp only: map_filter_map case_prod_beta id_apply)
    also have "\<dots> = (1 / 2) * sum_list (List.map_filter (\<lambda>x. net_agirlik (fst x)) G)"
      by (rule sum_list_half)
    also have "\<dots> = (1 / 2) * sum_list (List.map_filter net_agirlik (map fst G))"
      by (simp only: map_filter_map)
    finally show ?thesis .
  qed
  have gider: "v_gider v = sum_list (List.map_filter satir_tutari
                 (map fst (filter (\<lambda>(y, a). a_plaka a = p) ?Jy)))"
  proof (cases "p \<in> (\<lambda>(y, a). a_plaka a) ` set ?Jy")
    case True
    then show ?thesis
      using e(1) sum_y by (simp add: map_of_grupla key_y)
  next
    case False
    then have "filter (\<lambda>(y, a). a_plaka a = p) ?Jy = []"
      unfolding filter_empty_conv by (auto simp add: image_iff)
    with False show ?thesis
      using e(1) by (simp add: map_of_grupla map_filter_simps)
  qed
  have gelir: "v_gelir v = (1 / 2) * sum_list (List.map_filter net_agirlik
                 (map fst (filter (\<lambda>(g, a). a_plaka a = p) ?Ja)))"
  proof (cases "p \<in> (\<lambda>(g, a). a_plaka a) ` set ?Ja")
    case True
    then show ?thesis
      using e(2) sum_a by (simp add: map_of_grupla key_a)
  next
    case False
    then have "filter (\<lambda>(g, a). a_plaka a = p) ?Ja = []"
      unfolding filter_empty_conv by (auto simp add: image_iff)
    with False show ?thesis
      using e(2) by (simp add: map_of_grupla map_filter_simps)
  qed
  have E: ?E
  proof -
    from e(3) have "p \<in> (\<lambda>(y, a). a_plaka a) ` set ?Jy \<or> p \<in> (\<lambda>(g, a). a_plaka a) ` set ?Ja"
      by (simp add: map_of_grupla split: if_splits)
    then show ?thesis
      by (auto simp add: ic_birlesim_def)
  qed
  have PK: "plaka_kosulu plaka (Some p)"
  proof -
    from e(3) have "p \<in> (\<lambda>(y, a). a_plaka a) ` set ?Jy \<or> p \<in> (\<lambda>(g, a). a_plaka a) ` set ?Ja"
      by (simp add: map_of_grupla split: if_splits)
    then show ?thesis
      by (auto simp add: ic_birlesim_def)
  qed
  have cy: "(\<lambda>y. y_plaka y = Some p
                  \<and> tarih_kosulu baslangic_tarihi bitis_tarihi (islem_tarihi y)
                  \<and> plaka_kosulu plaka (y_plaka y))
          = (\<lambda>y. y_plaka y = Some p
                  \<and> tarih_kosulu baslangic_tarihi bitis_tarihi (islem_tarihi y))"
    using PK by (intro ext) auto
  have ca: "(\<lambda>g. ag_plaka g = Some p
                  \<and> tarih_kosulu baslangic_tarihi bitis_tarihi (tarih g)
                  \<and> plaka_kosulu plaka (ag_plaka g)
                  \<and> urun_birimi (birim g))
          = (\<lambda>g. ag_plaka g = Some p
                  \<and> tarih_kosulu baslangic_tarihi bitis_tarihi (tarih g)
                  \<and> urun_birimi (birim g))"
    using PK by (intro ext) auto
  have gy': "map fst (filter (\<lambda>(y, a). a_plaka a = p) ?Jy) =
            filter (\<lambda>y. y_plaka y = Some p
                          \<and> tarih_kosulu baslangic_tarihi bitis_tarihi (islem_tarihi y))
              (yakit_t db)"
    using gy E by (simp only: if_True cy)
  have ga': "map fst (filter (\<lambda>(g, a). a_plaka a = p) ?Ja) =
            filter (\<lambda>g. ag_plaka g = Some p
                          \<and> tarih_kosulu baslangic_tarihi bitis_tarihi (tarih g)
                          \<and> urun_birimi (birim g)) (agirlik_t db)"
    using ga E by (simp only: if_True ca)
  have G1: "pb_gelir x = (1 / 2) * sum_list (List.map_filter net_agirlik
             (filter (\<lambda>g. ag_plaka g = Some (pb_plaka x)
                          \<and> tarih_kosulu baslangic_tarihi bitis_tarihi (tarih g)
                          \<and> urun_birimi (birim g)) (agirlik_t db)))"
    by (simp only: xg xp gelir ga')
  have G2: "pb_gider x = sum_list (List.map_filter satir_tutari
             (filter (\<lambda>y. y_plaka y = Some (pb_plaka x)
                          \<and> tarih_kosulu baslangic_tarihi bitis_tarihi (islem_tarihi y))
                (yakit_t db)))"
    by (simp only: xd xp gider gy')
  have G3: "\<exists>a\<in>set araclar. a_plaka a = pb_plaka x \<and> kargo_aktif a"
    using E by (simp only: xp)
  have G4: "plaka_kosulu plaka (Some (pb_plaka x))"
    using PK by (simp only: xp)
  from G1 G2 G3 G4 show ?thesis by blast
qed

theorem get_muhasebe_data_revenue_cost_witness:
  "araclar_t ornek_db = Some ornek_araclar
   \<and> distinct (map a_plaka ornek_araclar)
   \<and> get_muhasebe_data ornek_db None None None = Inr ornek_muhasebe
   \<and> plaka_bazli ornek_muhasebe ! 1 \<in> set (plaka_bazli ornek_muhasebe)
   \<and> pb_gelir (plaka_bazli ornek_muhasebe ! 1) =
       (1 / 2) * sum_list (List.map_filter net_agirlik
          (filter (\<lambda>g. ag_plaka g = Some (pb_plaka (plaka_bazli ornek_muhasebe ! 1))
                       \<and> tarih_kosulu None None (tarih g)
                       \<and> urun_birimi (birim g)) (agirlik_t ornek_db)))
   \<and> pb_gider (plaka_bazli ornek_muhasebe ! 1) =
       sum_list (List.map_filter satir_tutari
          (filter (\<lambda>y. y_plaka y = Some (pb_plaka (plaka_bazli ornek_muhasebe ! 1))
                       \<and> tarih_kosulu None None (islem_tarihi y)) (yakit_t ornek_db)))
   \<and> plaka_kosulu None (Some (pb_plaka (plaka_bazli ornek_muhasebe ! 1)))"
proof -
  have h1: "araclar_t ornek_db = Some ornek_araclar"
    by (simp add: ornek_db_def)
  have h2: "distinct (map a_plaka ornek_araclar)"
    by code_simp
  have h3: "get_muhasebe_data ornek_db None None None = Inr ornek_muhasebe"
    by code_simp
  have h4: "plaka_bazli ornek_muhasebe ! 1 \<in> set (plaka_bazli ornek_muhasebe)"
    by (simp add: ornek_muhasebe_def)
  from get_muhasebe_data_revenue_cost [OF h1 h2 h3 h4] h1 h2 h3 h4
  show ?thesis by blast
qed

text \<open>
  Claim C5 as stated fails: a ticket whose unit is \<^verbatim>\<open>ADet\<close>, a count unit in mixed
  letter case, contributes half its net weight to the revenue.
\<close>

theorem count_unit_mixed_case_counterexample:
  "count_unit_any_case ''ADet''
   \<and> map birim (agirlik_t ornek_db_adet) = [Some ''ADet'']
   \<and> get_muhasebe_data ornek_db_adet None None None = Inr ornek_muhasebe_adet
   \<and> toplam_gelir ornek_muhasebe_adet = 150"
proof -
  have a: "count_unit_any_case ''ADet''"
    by (simp add: count_unit_any_case_def)
  have b: "map birim (agirlik_t ornek_db_adet) = [Some ''ADet'']"
    by (simp add: ornek_db_adet_def)
  have c: "get_muhasebe_data ornek_db_adet None None None = Inr ornek_muhasebe_adet"
    by code_simp
  have d: "toplam_gelir ornek_muhasebe_adet = 150"
    by (simp add: ornek_muhasebe_adet_def)
  from a b c d show ?thesis by blast
qed

section \<open>Vehicle performance: ratios and the date filter\<close>

lemma tarih_kosulu_tek:
  "\<not> (dolu b \<and> dolu e) \<Longrightarrow> tarih_kosulu b e t"
  by (auto simp add: tarih_kosulu_def dolu_def split: option.splits)

lemma tarih_kosulu_None: "tarih_kosulu None None t"
  by (simp add: tarih_kosulu_def)

lemma tarih_kosulu_tek_eq:
  "\<not> (dolu b \<and> dolu e) \<Longrightarrow> tarih_kosulu b e = tarih_kosulu None None"
  by (rule ext) (simp add: tarih_kosulu_tek tarih_kosulu_None)





text \<open>
  Claim C3, evaluated on the code. The total distance of
  \<^verbatim>\<open>get_arac_performans_analizi\<close> is \<^verbatim>\<open>SUM(km_bilgisi)\<close>, the sum of the odometer
  readings themselves: for the plate with the readings 100, 250, 50, 300 it is 700, and
  the returned figure is the rounding of 700, where the reconstruction of
  \<^verbatim>\<open>hesapla_gercek_km\<close> is 400; the fuel-per-distance ratio is computed over 700.
\<close>

theorem performans_toplam_km_is_sum_of_readings:
  "h_toplam_km (performans_hesaplamalar ornek_db ''46AJH283'' None None) = 700
   \<and> toplam_km (r_yakit (get_arac_performans_analizi yuvarla ornek_db ''46AJH283'' None None))
       = yuvarla 700 2
   \<and> hesapla_gercek_km (yakit_t ornek_db) ''46AJH283'' = 400
   \<and> h_yakit_km_orani (performans_hesaplamalar ornek_db ''46AJH283'' None None) = 200 / 700"
proof -
  have a: "h_toplam_km (performans_hesaplamalar ornek_db ''46AJH283'' None None) = 700"
    by code_simp
  have b: "toplam_km (r_yakit (get_arac_performans_analizi yuvarla ornek_db ''46AJH283'' None None))
       = yuvarla 700 2"
    by (simp add: get_arac_performans_analizi_def Let_def a)
  have c: "hesapla_gercek_km (yakit_t ornek_db) ''46AJH283'' = 400"
    by code_simp
  have d: "h_yakit_km_orani (performans_hesaplamalar ornek_db ''46AJH283'' None None) = 200 / 700"
    by code_simp
  from a b c d show ?thesis by blast
qed

text \<open>
  Claim C10. In \<^verbatim>\<open>get_muhasebe_data\<close> and in \<^verbatim>\<open>get_arac_performans_analizi\<close> a date
  range of which only one endpoint is supplied is ignored: the result of the accounting
  is the one without any date range, and the computed quantities of the performance
  analysis and the three sections of figures it returns are those without any date
  range, over all the fuel records of the plate with a positive fuel amount.
\<close>

theorem one_sided_date_range_ignored:
  assumes "(dolu baslangic_tarihi \<and> \<not> dolu bitis_tarihi) \<or> (\<not> dolu baslangic_tarihi \<and> dolu bitis_tarihi)"
  shows "get_muhasebe_data db baslangic_tarihi bitis_tarihi plaka = get_muhasebe_data db None None plaka
     \<and> performans_hesaplamalar db p baslangic_tarihi bitis_tarihi = performans_hesaplamalar db p None None
     \<and> r_yakit (get_arac_performans_analizi yuvarla db p baslangic_tarihi bitis_tarihi)
         = r_yakit (get_arac_performans_analizi yuvarla db p None None)
     \<and> r_tonaj (get_arac_performans_analizi yuvarla db p baslangic_tarihi bitis_tarihi)
         = r_tonaj (get_arac_performans_analizi yuvarla db p None None)
     \<and> r_performans (get_arac_performans_analizi yuvarla db p baslangic_tarihi bitis_tarihi)
         = r_performans (get_arac_performans_analizi yuvarla db p None None)
     \<and> performans_yakit_rows (yakit_t db) p baslangic_tarihi bitis_tarihi
         = filter (\<lambda>y. y_plaka y = Some p
                        \<and> (case yakit_miktari y of None \<Rightarrow> False | Some m \<Rightarrow> m > 0)) (yakit_t db)"
proof -
  from assms have n: "\<not> (dolu baslangic_tarihi \<and> dolu bitis_tarihi)" by blast
  have t: "tarih_kosulu baslangic_tarihi bitis_tarihi = tarih_kosulu None None"
    by (rule tarih_kosulu_tek_eq [OF n])
  have m: "get_muhasebe_data db baslangic_tarihi bitis_tarihi plaka = get_muhasebe_data db None None plaka"
    by (cases "araclar_t db")
      (simp_all add: get_muhasebe_data_def muhasebe_yakit_rows_def muhasebe_agirlik_rows_def t)
  have h: "performans_hesaplamalar db p baslangic_tarihi bitis_tarihi = performans_hesaplamalar db p None None"
    by (simp add: performans_hesaplamalar_def performans_yakit_rows_def performans_agirlik_rows_def t)
  have r: "r_yakit (get_arac_performans_analizi yuvarla db p baslangic_tarihi bitis_tarihi)
         = r_yakit (get_arac_performans_analizi yuvarla db p None None)"
        "r_tonaj (get_arac_performans_analizi yuvarla db p baslangic_tarihi bitis_tarihi)
         = r_tonaj (get_arac_performans_analizi yuvarla db p None None)"
        "r_performans (get_arac_performans_analizi yuvarla db p baslangic_tarihi bitis_tarihi)
         = r_performans (get_arac_performans_analizi yuvarla db p None None)"
    by (simp_all add: get_arac_performans_analizi_def Let_def h)
  have f: "performans_yakit_rows (yakit_t db) p baslangic_tarihi bitis_tarihi
         = filter (\<lambda>y. y_plaka y = Some p
                        \<and> (case yakit_miktari y of None \<Rightarrow> False | Some m \<Rightarrow> m > 0)) (yakit_t db)"
    by (simp add: performans_yakit_rows_def tarih_kosulu_tek [OF n])
  from m h r f show ?thesis by blast
qed
theorem one_sided_date_range_ignored_witness:
  "dolu (Some ''2024-01-02'') \<and> \<not> dolu None
   \<and> get_muhasebe_data ornek_db (Some ''2024-01-02'') None None = Inr ornek_muhasebe
   \<and> performans_hesaplamalar ornek_db ''46AJH283'' (Some ''2024-01-02'') None
       = performans_hesaplamalar ornek_db ''46AJH283'' None None
   \<and> \<not> dolu (Some []) \<and> dolu (Some ''2024-01-02'')
   \<and> get_muhasebe_data ornek_db (Some []) (Some ''2024-01-02'') None = Inr ornek_muhasebe"
proof -
  have a: "dolu (Some ''2024-01-02'')" and b: "\<not> dolu None" and c: "\<not> dolu (Some [])"
    by (simp_all add: dolu_def)
  have m: "get_muhasebe_data ornek_db None None None = Inr ornek_muhasebe"
    by code_simp
  have h1: "(dolu (Some ''2024-01-02'') \<and> \<not> dolu None) \<or> (\<not> dolu (Some ''2024-01-02'') \<and> dolu None)"
    using a b by blast
  have h2: "(dolu (Some []) \<and> \<not> dolu (Some ''2024-01-02''))
            \<or> (\<not> dolu (Some []) \<and> dolu (Some ''2024-01-02''))"
    using a c by blast
  from one_sided_date_range_ignored [OF h1, of ornek_db None "''46AJH283''"]
       one_sided_date_range_ignored [OF h2, of ornek_db None "''46AJH283''"] a b c m
  show ?thesis by simp
qed

section \<open>The vehicle table absent or empty\<close>

lemma sol_birlesim_aktif_Nil: "sol_birlesim_aktif plaka_of [] rows = rows"
  by (induction rows) (simp_all add: sol_birlesim_aktif_def)

lemma ic_birlesim_Nil: "ic_birlesim plaka_of rows [] = []"
  by (induction rows) (simp_all add: ic_birlesim_def)

lemma grupla_Nil: "grupla key [] = []"
  by (simp add: grupla_def)

lemma muhasebe_hesapla_Nil: "muhasebe_hesapla [] [] = bos_muhasebe"
  by (simp add: muhasebe_hesapla_def bos_muhasebe_def sort_reverse_def)

text \<open>
  Claim C6, as amended. When the vehicle table is absent or has no row, the raw fetches
  \<^verbatim>\<open>get_yakit_data\<close> and \<^verbatim>\<open>get_agirlik_data\<close> return every record of their table;
  \<^verbatim>\<open>get_arac_performans_analizi\<close> does not read the vehicle table at all, so its result
  is the same whatever that table is. \<^verbatim>\<open>get_muhasebe_data\<close>, however, joins the
  vehicle table: when the table has no row its result is the success result with all
  totals 0 and no per-plate entry, whatever records the other tables hold.
\<close>

theorem vehicle_table_absent_or_empty:
  "(araclar_t db = None \<or> araclar_t db = Some [] \<longrightarrow>
      get_yakit_data db = yakit_t db \<and> get_agirlik_data db = agirlik_t db)
   \<and> get_arac_performans_analizi yuvarla (db\<lparr>araclar_t := t\<rparr>) p baslangic_tarihi bitis_tarihi
       = get_arac_performans_analizi yuvarla db p baslangic_tarihi bitis_tarihi
   \<and> (araclar_t db = Some [] \<longrightarrow>
        get_muhasebe_data db baslangic_tarihi bitis_tarihi plaka = Inr bos_muhasebe)"
proof -
  have a: "araclar_t db = None \<or> araclar_t db = Some [] \<longrightarrow>
      get_yakit_data db = yakit_t db \<and> get_agirlik_data db = agirlik_t db"
    by (auto simp add: get_yakit_data_def get_agirlik_data_def sol_birlesim_aktif_Nil)
  have b: "get_arac_performans_analizi yuvarla (db\<lparr>araclar_t := t\<rparr>) p baslangic_tarihi bitis_tarihi
       = get_arac_performans_analizi yuvarla db p baslangic_tarihi bitis_tarihi"
    by (simp add: get_arac_performans_analizi_def performans_hesaplamalar_def)
  have c: "araclar_t db = Some [] \<longrightarrow>
        get_muhasebe_data db baslangic_tarihi bitis_tarihi plaka = Inr bos_muhasebe"
    by (simp add: get_muhasebe_data_def muhasebe_yakit_rows_def muhasebe_agirlik_rows_def
        ic_birlesim_Nil grupla_Nil muhasebe_hesapla_Nil)
  from a b c show ?thesis by blast
qed
theorem vehicle_table_absent_or_empty_witness:
  "araclar_t ornek_db_ucte_bir = None
   \<and> get_yakit_data ornek_db_ucte_bir = yakit_t ornek_db_ucte_bir
   \<and> araclar_t ornek_db_aracsiz = Some []
   \<and> get_yakit_data ornek_db_aracsiz = yakit_t ornek_db_aracsiz
   \<and> get_agirlik_data ornek_db_aracsiz = agirlik_t ornek_db_aracsiz
   \<and> get_muhasebe_data ornek_db_aracsiz (Some ''2024-01-01'') (Some ''2024-01-03'') None
       = Inr bos_muhasebe"
proof -
  have a: "araclar_t ornek_db_ucte_bir = None"
    by (simp add: ornek_db_ucte_bir_def)
  have b: "araclar_t ornek_db_aracsiz = Some []"
    by (simp add: ornek_db_aracsiz_def)
  from vehicle_table_absent_or_empty [where db = ornek_db_ucte_bir]
       vehicle_table_absent_or_empty
         [where db = ornek_db_aracsiz and baslangic_tarihi = "Some ''2024-01-01''"
            and bitis_tarihi = "Some ''2024-01-03''" and plaka = None]
       a b
  show ?thesis by blast
qed

text \<open>
  Claim C6 as stated fails for the accounting: with a vehicle table that has no row and
  with six fuel records and four weight records in the store, the result has no
  per-plate entry and all its totals are 0.
\<close>

theorem accounting_empty_vehicle_table_counterexample:
  "araclar_t ornek_db_aracsiz = Some []
   \<and> length (yakit_t ornek_db_aracsiz) = 6
   \<and> length (agirlik_t ornek_db_aracsiz) = 4
   \<and> get_muhasebe_data ornek_db_aracsiz None None None = Inr bos_muhasebe
   \<and> plaka_bazli bos_muhasebe = []
   \<and> toplam_gider bos_muhasebe = 0"
proof -
  have a: "araclar_t ornek_db_aracsiz = Some []"
    by (simp add: ornek_db_aracsiz_def)
  have b: "length (yakit_t ornek_db_aracsiz) = 6"
    by (simp add: ornek_db_aracsiz_def ornek_yakit_def)
  have c: "length (agirlik_t ornek_db_aracsiz) = 4"
    by (simp add: ornek_db_aracsiz_def ornek_agirlik_def)
  have d: "get_muhasebe_data ornek_db_aracsiz None None None = Inr bos_muhasebe"
    by code_simp
  have e: "plaka_bazli bos_muhasebe = []" "toplam_gider bos_muhasebe = 0"
    by (simp_all add: bos_muhasebe_def)
  from a b c d e show ?thesis by blast
qed

section \<open>Comparison of plates\<close>

lemma dongu:
  "karsilastir_dongusu yuvarla (\<lambda>f. Inr (fetch f)) (\<lambda>p b e. Inr (gercek p b e))
       baslangic bitis plakalar sonuclar
     = Inr (sonuclar @ map (\<lambda>plaka. sonuc_satiri yuvarla plaka
                                        (fetch (filtre_kur plaka baslangic bitis))
                                        (gercek plaka baslangic bitis)) plakalar)"
  by (induction plakalar arbitrary: sonuclar) simp_all

lemma f_plaka_filtre_kur: "f_plaka (filtre_kur plaka b e) = plaka"
  by (simp add: filtre_kur_def Let_def split: option.splits)

lemma fetch_none:
  "\<forall>y\<in>set tablo. y_plaka y \<noteq> Some plaka \<Longrightarrow> fetch_all_paginated tablo (filtre_kur plaka b e) = []"
  by (simp add: fetch_all_paginated_def f_plaka_filtre_kur filter_empty_conv)

lemma km_sorgusu_none:
  "\<forall>y\<in>set tablo. y_plaka y \<noteq> Some plaka \<Longrightarrow> km_sorgusu tablo plaka = []"
proof -
  assume "\<forall>y\<in>set tablo. y_plaka y \<noteq> Some plaka"
  then have "filter (\<lambda>r. y_plaka r = Some plaka \<and> km_pozitif r) tablo = []"
    by (simp add: filter_empty_conv)
  then show ?thesis by (simp add: km_sorgusu_def km_kayitlari_def map_filter_simps)
qed

lemma true_distance_none:
  "\<forall>y\<in>set tablo. y_plaka y \<noteq> Some plaka \<Longrightarrow> true_distance tablo plaka b e = 0"
proof -
  assume a: "\<forall>y\<in>set tablo. y_plaka y \<noteq> Some plaka"
  then have "\<forall>y\<in>set (filter (in_date_range b e) tablo). y_plaka y \<noteq> Some plaka" by simp
  then have "km_sorgusu (filter (in_date_range b e) tablo) plaka = []"
    by (rule km_sorgusu_none)
  then show ?thesis by (simp add: true_distance_def ardisik_farklar_toplami_def)
qed

lemma sonuc_satiri_zero:
  "sonuc_satiri yuvarla plaka [] 0 =
     \<lparr>s_plaka = plaka, s_toplam_yakit = yuvarla 0 2, s_toplam_maliyet = yuvarla 0 2,
      s_gercek_km = yuvarla 0 2, s_ortalama_tuketim = yuvarla 0 2\<rparr>"
  by (simp add: sonuc_satiri_def)

text \<open>
  Claim C7. Over a store that answers every query, \<^verbatim>\<open>api_performans_karsilastir\<close>
  returns, for every list of requested plates, a success result with one row per plate
  in the order of the list. For a plate without any fuel record the total fuel, the
  total cost, the true distance and the average consumption are all 0 when they are
  handed to \<^verbatim>\<open>round\<close>: each figure of its row is \<^verbatim>\<open>round(0, 2)\<close>, and so the row is
  all zero, \<^verbatim>\<open>round(0, 2)\<close> being 0.
\<close>

theorem api_performans_karsilastir_rows:
  "\<exists>sonuclar.
     api_performans_karsilastir yuvarla (\<lambda>f. Inr (fetch_all_paginated (yakit_t db) f))
        (\<lambda>p b e. Inr (true_distance (yakit_t db) p b e)) plakalar baslangic bitis = Inr sonuclar
     \<and> map s_plaka sonuclar = plakalar
     \<and> (\<forall>i < length plakalar.
          (\<forall>y\<in>set (yakit_t db). y_plaka y \<noteq> Some (plakalar ! i)) \<longrightarrow>
          sonuclar ! i = \<lparr>s_plaka = plakalar ! i, s_toplam_yakit = yuvarla 0 2,
                          s_toplam_maliyet = yuvarla 0 2, s_gercek_km = yuvarla 0 2,
                          s_ortalama_tuketim = yuvarla 0 2\<rparr>
          \<and> (yuvarla 0 2 = 0 \<longrightarrow>
               sonuclar ! i = \<lparr>s_plaka = plakalar ! i, s_toplam_yakit = 0, s_toplam_maliyet = 0,
                               s_gercek_km = 0, s_ortalama_tuketim = 0\<rparr>))"
proof -
  let ?row = "\<lambda>plaka. sonuc_satiri yuvarla plaka
                 (fetch_all_paginated (yakit_t db) (filtre_kur plaka baslangic bitis))
                 (true_distance (yakit_t db) plaka baslangic bitis)"
  have r: "api_performans_karsilastir yuvarla (\<lambda>f. Inr (fetch_all_paginated (yakit_t db) f))
        (\<lambda>p b e. Inr (true_distance (yakit_t db) p b e)) plakalar baslangic bitis
        = Inr (map ?row plakalar)"
    by (simp add: api_performans_karsilastir_def dongu)
  have p: "map s_plaka (map ?row plakalar) = plakalar"
    by (simp add: sonuc_satiri_def Let_def comp_def)
  have z: "\<forall>i < length plakalar.
          (\<forall>y\<in>set (yakit_t db). y_plaka y \<noteq> Some (plakalar ! i)) \<longrightarrow>
          map ?row plakalar ! i = \<lparr>s_plaka = plakalar ! i, s_toplam_yakit = yuvarla 0 2,
                          s_toplam_maliyet = yuvarla 0 2, s_gercek_km = yuvarla 0 2,
                          s_ortalama_tuketim = yuvarla 0 2\<rparr>
          \<and> (yuvarla 0 2 = 0 \<longrightarrow>
               map ?row plakalar ! i = \<lparr>s_plaka = plakalar ! i, s_toplam_yakit = 0,
                               s_toplam_maliyet = 0, s_gercek_km = 0, s_ortalama_tuketim = 0\<rparr>)"
    by (simp add: fetch_none true_distance_none sonuc_satiri_zero)
  from r p z show ?thesis by blast
qed

text \<open>
  The figures of the example are whole numbers, which \<^verbatim>\<open>round(x, 2)\<close> returns as they
  are.
\<close>

theorem api_performans_karsilastir_rows_witness:
  "api_performans_karsilastir (\<lambda>x n. x) (\<lambda>f. Inr (fetch_all_paginated (yakit_t ornek_db) f))
        (\<lambda>p b e. Inr (true_distance (yakit_t ornek_db) p b e)) ornek_plakalar None None
     = Inr ornek_sonuclar
   \<and> map s_plaka ornek_sonuclar = ornek_plakalar
   \<and> 1 < length ornek_plakalar
   \<and> list_all (\<lambda>y. y_plaka y \<noteq> Some (ornek_plakalar ! 1)) (yakit_t ornek_db)
   \<and> ornek_sonuclar ! 1 = \<lparr>s_plaka = ornek_plakalar ! 1, s_toplam_yakit = 0, s_toplam_maliyet = 0,
                            s_gercek_km = 0, s_ortalama_tuketim = 0\<rparr>"
proof -
  have ev: "api_performans_karsilastir (\<lambda>x n. x)
        (\<lambda>f. Inr (fetch_all_paginated (yakit_t ornek_db) f))
        (\<lambda>p b e. Inr (true_distance (yakit_t ornek_db) p b e)) ornek_plakalar None None
     = Inr ornek_sonuclar"
    by code_simp
  have l: "1 < length ornek_plakalar"
    by (simp add: ornek_plakalar_def)
  have n: "list_all (\<lambda>y. y_plaka y \<noteq> Some (ornek_plakalar ! 1)) (yakit_t ornek_db)"
    by code_simp
  then have n': "\<forall>y\<in>set (yakit_t ornek_db). y_plaka y \<noteq> Some (ornek_plakalar ! 1)"
    by (simp add: list_all_iff)
  have y0: "(\<lambda>(x :: rat) (n :: nat). x) 0 2 = 0"
    by simp
  from api_performans_karsilastir_rows [of "\<lambda>x n. x" ornek_db ornek_plakalar None None]
  obtain sonuclar where
    s: "api_performans_karsilastir (\<lambda>x n. x)
          (\<lambda>f. Inr (fetch_all_paginated (yakit_t ornek_db) f))
          (\<lambda>p b e. Inr (true_distance (yakit_t ornek_db) p b e)) ornek_plakalar None None
        = Inr sonuclar"
    and m: "map s_plaka sonuclar = ornek_plakalar"
    and z: "\<forall>i < length ornek_plakalar.
          (\<forall>y\<in>set (yakit_t ornek_db). y_plaka y \<noteq> Some (ornek_plakalar ! i)) \<longrightarrow>
          ((\<lambda>(x :: rat) (n :: nat). x) 0 2 = 0 \<longrightarrow>
             sonuclar ! i = \<lparr>s_plaka = ornek_plakalar ! i, s_toplam_yakit = 0,
               s_toplam_maliyet = 0, s_gercek_km = 0, s_ortalama_tuketim = 0\<rparr>)"
    by blast
  from s ev have eq: "sonuclar = ornek_sonuclar" by simp
  from z l n' y0 have "sonuclar ! 1 = \<lparr>s_plaka = ornek_plakalar ! 1, s_toplam_yakit = 0,
      s_toplam_maliyet = 0, s_gercek_km = 0, s_ortalama_tuketim = 0\<rparr>"
    by blast
  with ev m l n eq show ?thesis by simp
qed

section \<open>The distance reconstruction over a date range\<close>

text \<open>
  Claim C2. \<^verbatim>\<open>true_distance\<close> takes an optional start date and an optional end date.
  When both are supplied, the reconstruction is the sum of the positive consecutive
  deltas over the fuel records of the plate whose transaction date lies in
  \<^verbatim>\<open>[start_date, end_date]\<close>, both ends included; two tables that hold the same
  records within the range give the same distance, so a record outside the range
  contributes to no delta. Without dates it is the reconstruction over all records.
\<close>

theorem true_distance_date_range:
  "true_distance tablo plate (Some s) (Some e) =
     positive_delta_sum (km_sorgusu
        (filter (\<lambda>r. case islem_tarihi r of None \<Rightarrow> False | Some d \<Rightarrow> s \<le> d \<and> d \<le> e) tablo) plate)
   \<and> (filter (\<lambda>r. case islem_tarihi r of None \<Rightarrow> False | Some d \<Rightarrow> s \<le> d \<and> d \<le> e) tablo
        = filter (\<lambda>r. case islem_tarihi r of None \<Rightarrow> False | Some d \<Rightarrow> s \<le> d \<and> d \<le> e) tablo'
      \<longrightarrow> true_distance tablo plate (Some s) (Some e) = true_distance tablo' plate (Some s) (Some e))
   \<and> true_distance tablo plate None None = hesapla_gercek_km tablo plate"
proof -
  have f: "in_date_range (Some s) (Some e) =
           (\<lambda>r. case islem_tarihi r of None \<Rightarrow> False | Some d \<Rightarrow> s \<le> d \<and> d \<le> e)"
    by (rule ext) (simp add: in_date_range_def split: option.splits)
  have n: "in_date_range None None = (\<lambda>r. True)"
    by (rule ext) (simp add: in_date_range_def)
  have a: "true_distance tablo plate (Some s) (Some e) =
     positive_delta_sum (km_sorgusu
        (filter (\<lambda>r. case islem_tarihi r of None \<Rightarrow> False | Some d \<Rightarrow> s \<le> d \<and> d \<le> e) tablo) plate)"
    by (simp add: true_distance_def f ardisik_farklar_toplami_eq)
  have b: "filter (\<lambda>r. case islem_tarihi r of None \<Rightarrow> False | Some d \<Rightarrow> s \<le> d \<and> d \<le> e) tablo
        = filter (\<lambda>r. case islem_tarihi r of None \<Rightarrow> False | Some d \<Rightarrow> s \<le> d \<and> d \<le> e) tablo'
      \<longrightarrow> true_distance tablo plate (Some s) (Some e) = true_distance tablo' plate (Some s) (Some e)"
    by (simp add: true_distance_def f)
  have c: "true_distance tablo plate None None = hesapla_gercek_km tablo plate"
    by (simp add: true_distance_def n hesapla_gercek_km_def)
  from a b c show ?thesis by blast
qed
theorem true_distance_date_range_witness:
  "length ornek_yakit = 6 \<and> length ornek_yakit_aralik = 5
   \<and> true_distance ornek_yakit ''46AJH283'' (Some ''2024-01-02'') (Some ''2024-01-03'')
       = true_distance ornek_yakit_aralik ''46AJH283'' (Some ''2024-01-02'') (Some ''2024-01-03'')
   \<and> true_distance ornek_yakit ''46AJH283'' (Some ''2024-01-02'') (Some ''2024-01-03'') = 250
   \<and> true_distance ornek_yakit ''46AJH283'' None None = 400"
proof -
  let ?P = "\<lambda>r. case islem_tarihi r of None \<Rightarrow> False
                 | Some d \<Rightarrow> ''2024-01-02'' \<le> d \<and> d \<le> ''2024-01-03''"
  have l: "length ornek_yakit = 6"
    by (simp add: ornek_yakit_def)
  have l': "length ornek_yakit_aralik = 5"
    by code_simp
  have f: "filter ?P ornek_yakit = filter ?P ornek_yakit_aralik"
    by (simp add: ornek_yakit_aralik_def)
  have v: "true_distance ornek_yakit ''46AJH283'' (Some ''2024-01-02'') (Some ''2024-01-03'') = 250"
    by code_simp
  have w: "hesapla_gercek_km ornek_yakit ''46AJH283'' = 400"
    by code_simp
  from true_distance_date_range
         [of ornek_yakit "''46AJH283''" "''2024-01-02''" "''2024-01-03''" ornek_yakit_aralik]
       f l l' v w
  show ?thesis by simp
qed

end
